theory Spec2Isabelle
  imports Complex_Main "HOL-Library.Sublist"
begin

section \<open>The process state and the outside world\<close>

text \<open>
  The bot keeps its working state in module-level maps and sets
  (\<^verbatim>\<open>submissions\<close>, \<^verbatim>\<open>tokenToUserId\<close>, \<^verbatim>\<open>processedSubmissions\<close>, ...).
  Every handler reads and mutates them, so the model threads one record, \<open>world\<close>,
  through every function. The same record carries the collaborators the handlers
  talk to: the backup file in the GitHub repository, the Jotform API, the transfer
  into Google Drive and the Discord notification channel. Their answers cannot be
  computed from the program, so they are fields of the record that the model only
  reads (\<open>jotform_forms\<close>, \<open>jotform_answers\<close>, \<open>drive_transfer\<close>) or consumes
  (\<open>github_replies\<close>).

  Strings are lists of 8-bit characters; JavaScript code units above 255 have no
  counterpart. Replies to the Discord interaction (\<^verbatim>\<open>interaction.editReply\<close> and
  friends) are presentation: they are left out and taken not to throw.
\<close>

record uploaded_file =
  originalName :: string
  driveId :: string
  driveLink :: string

text \<open>The draft of one user, \<^verbatim>\<open>submissions.get(userId)\<close>. A property that may be
  \<^verbatim>\<open>undefined\<close> is an option.\<close>

record draft =
  userId :: "string option"
  username :: "string option"
  project_name :: string
  sessionToken :: "string option"
  status :: string
  jotform :: "string option"
  jotformSubmissionId :: "string option"
  uploadedFiles :: "uploaded_file list option"

text \<open>One element of \<^verbatim>\<open>submissions.json\<close>: the draft spread into a new object with
  \<^verbatim>\<open>user_id\<close>, \<^verbatim>\<open>username\<close>, \<^verbatim>\<open>submitted_at\<close> and \<^verbatim>\<open>uploadedFiles\<close> set.\<close>

record submission_record =
  snapshot :: draft
  user_id :: string
  record_username :: string
  submitted_at :: nat
  record_files :: "uploaded_file list"

record notification =
  notified_submission :: string
  notified_key :: string

text \<open>A Jotform answer: its \<^verbatim>\<open>name\<close>, its \<^verbatim>\<open>type\<close> and its \<^verbatim>\<open>answer\<close>, which is a
  string, an array of file URLs, or absent.\<close>

datatype answer_value = AText string | AFiles "string list" | ANone

record answer =
  answer_name :: string
  answer_type :: string
  answer_value :: answer_value

record jot_submission =
  submission_id :: string
  answers :: "answer list"

text \<open>What the GitHub API answers to a write: it takes it; or it fails with an HTTP
  status and the file stays as it is; or another writer has replaced the file since it
  was read, and the write fails with the version conflict 409.\<close>

datatype api_reply = Accept | Reject nat | Conflict "submission_record list"

datatype git_call = GetContent | PutContent "nat option"

datatype console_line = LogConflict nat | LogSaveFailed nat

record world =
  submissions :: "string \<rightharpoonup> draft"
  tokenToUserId :: "string \<rightharpoonup> string"
  processingConfirmations :: "string set"
  processedSubmissions :: "string set"
  processingSubmissions :: "string set"
  processedTokens :: "string set"
  notificationsSent :: "string set"
  github_file :: "(submission_record list \<times> nat) option"
  github_replies :: "api_reply list"
  github_calls :: "git_call list"
  timeouts :: "nat list"
  console :: "console_line list"
  jotform_forms :: "string \<Rightarrow> jot_submission list option"
  jotform_answers :: "string \<Rightarrow> answer list option"
  drive_transfer :: "string \<Rightarrow> uploaded_file option"
  channel :: "notification list option"
  clock :: nat

section \<open>The backup file in the repository\<close>

text \<open>\<^verbatim>\<open>loadBackupFromGitHub\<close>: the parsed file, or the empty list when the read
  fails. In this model a read fails when the file does not exist, and only then.\<close>

definition loadBackupFromGitHub :: "world \<Rightarrow> submission_record list \<times> world" where
  "loadBackupFromGitHub w =
     (case github_file w of
        Some (records, sha) \<Rightarrow> (records, w\<lparr>github_calls := github_calls w @ [GetContent]\<rparr>)
      | None \<Rightarrow> ([], w\<lparr>github_calls := github_calls w @ [GetContent]\<rparr>))"

text \<open>One pass of the body of the \<^verbatim>\<open>while\<close> loop up to the write: read the current
  \<^verbatim>\<open>sha\<close> (an error of the read is swallowed and leaves it \<^verbatim>\<open>undefined\<close>), then
  \<^verbatim>\<open>createOrUpdateFileContents\<close>. The next scripted reply of the repository decides
  the write; with no reply left the repository accepts.\<close>

definition put_attempt :: "submission_record list \<Rightarrow> world \<Rightarrow> nat option \<times> world" where
  "put_attempt data w =
     (let sha = map_option snd (github_file w);
          w1 = w\<lparr>github_calls := github_calls w @ [GetContent, PutContent sha]\<rparr>
      in case github_replies w1 of
           [] \<Rightarrow> (None, w1\<lparr>github_file := Some (data, case sha of None \<Rightarrow> 0 | Some s \<Rightarrow> Suc s)\<rparr>)
         | Accept # rs \<Rightarrow>
             (None, w1\<lparr>github_file := Some (data, case sha of None \<Rightarrow> 0 | Some s \<Rightarrow> Suc s),
                         github_replies := rs\<rparr>)
         | Reject st # rs \<Rightarrow> (Some st, w1\<lparr>github_replies := rs\<rparr>)
         | Conflict theirs # rs \<Rightarrow>
             (Some 409, w1\<lparr>github_file := Some (theirs, case sha of None \<Rightarrow> 0 | Some s \<Rightarrow> Suc s),
                             github_replies := rs\<rparr>))"

text \<open>The status the caller of the write sees for a reply; \<open>None\<close> is success.\<close>

fun reply_status :: "api_reply \<Rightarrow> nat option" where
  "reply_status Accept = None"
| "reply_status (Reject st) = Some st"
| "reply_status (Conflict theirs) = Some 409"

text \<open>The \<^verbatim>\<open>while (retries > 0)\<close> loop. \<open>None\<close> is the \<^verbatim>\<open>return\<close> after a write that
  went through (or the loop running out), \<open>Some st\<close> the error thrown out of the loop.\<close>

fun save_loop :: "nat \<Rightarrow> submission_record list \<Rightarrow> world \<Rightarrow> nat option \<times> world" where
  "save_loop 0 data w = (None, w)"
| "save_loop (Suc n) data w =
     (case put_attempt data w of
        (None, w1) \<Rightarrow> (None, w1)
      | (Some st, w1) \<Rightarrow>
          if st = 409 \<and> 1 < Suc n
          then save_loop n data
                 (w1\<lparr>console := console w1 @ [LogConflict n], timeouts := timeouts w1 @ [1000]\<rparr>)
          else (Some st, w1))"

text \<open>How a call ends for its caller: it returns, or it throws.\<close>

datatype completion = Returns | Throws nat

text \<open>\<^verbatim>\<open>saveBackupToGitHub\<close>: three retries, and the outer \<^verbatim>\<open>catch\<close> that logs whatever
  the loop threw.\<close>

definition saveBackupToGitHub :: "submission_record list \<Rightarrow> world \<Rightarrow> completion \<times> world" where
  "saveBackupToGitHub data w =
     (case save_loop 3 data w of
        (None, w1) \<Rightarrow> (Returns, w1)
      | (Some st, w1) \<Rightarrow> (Returns, w1\<lparr>console := console w1 @ [LogSaveFailed st]\<rparr>))"

section \<open>Notification and the Jotform gateway\<close>

text \<open>\<^verbatim>\<open>sendSubmissionNotification\<close>: the key is \<^verbatim>\<open>`${submissionId}_${userData.userId}`\<close>
  (an absent \<^verbatim>\<open>userId\<close> prints as \<^verbatim>\<open>undefined\<close>). The key is recorded before the channel is
  looked up. The embed that is sent is presentation; the model keeps which submission it
  announces. Every error is caught inside, so the call always returns.\<close>

definition notificationKey :: "draft \<Rightarrow> string \<Rightarrow> string" where
  "notificationKey userData submissionId =
     submissionId @ ''_'' @ (case userId userData of Some u \<Rightarrow> u | None \<Rightarrow> ''undefined'')"

definition sendSubmissionNotification :: "draft \<Rightarrow> string \<Rightarrow> world \<Rightarrow> world" where
  "sendSubmissionNotification userData submissionId w =
     (let k = notificationKey userData submissionId
      in if k \<in> notificationsSent w then w
         else let w1 = w\<lparr>notificationsSent := insert k (notificationsSent w)\<rparr>
              in case channel w1 of
                   None \<Rightarrow> w1
                 | Some sent \<Rightarrow>
                     w1\<lparr>channel := Some (sent @
                          [\<lparr>notified_submission = submissionId, notified_key = k\<rparr>])\<rparr>)"

text \<open>\<^verbatim>\<open>String.prototype.includes\<close>.\<close>

fun js_includes :: "string \<Rightarrow> string \<Rightarrow> bool" where
  "js_includes [] t = (t = [])"
| "js_includes (c # cs) t = (prefix t (c # cs) \<or> js_includes cs t)"

text \<open>The token as it is compared and searched for; \<^verbatim>\<open>includes(undefined)\<close> searches
  for the text \<^verbatim>\<open>undefined\<close>.\<close>

definition token_text :: "string option \<Rightarrow> string" where
  "token_text t = (case t of Some s \<Rightarrow> s | None \<Rightarrow> ''undefined'')"

text \<open>The two tests made on each answer of a submission, in the order of the source:
  the \<^verbatim>\<open>session_id\<close> field strictly equal to the token, or a non-empty string answer
  that contains the token.\<close>

definition answer_matches :: "string option \<Rightarrow> answer \<Rightarrow> bool" where
  "answer_matches tok a =
     ((answer_name a = ''session_id'' \<and>
        (case (answer_value a, tok) of
           (AText s, Some t) \<Rightarrow> s = t
         | (ANone, None) \<Rightarrow> True
         | _ \<Rightarrow> False))
      \<or> (case answer_value a of
            AText s \<Rightarrow> s \<noteq> [] \<and> js_includes s (token_text tok)
          | _ \<Rightarrow> False))"

text \<open>\<^verbatim>\<open>checkForTokenBasedJotformSubmissions\<close>: \<open>None\<close> is the \<^verbatim>\<open>false\<close> of the source
  (API error, no submission, or no submission carrying the token), \<open>Some id\<close> the
  first submission with a matching answer.\<close>

definition checkForTokenBasedJotformSubmissions :: "string \<Rightarrow> draft \<Rightarrow> world \<Rightarrow> string option" where
  "checkForTokenBasedJotformSubmissions formId userData w =
     (case jotform_forms w formId of
        None \<Rightarrow> None
      | Some content \<Rightarrow>
          map_option submission_id
            (find (\<lambda>s. \<exists>a \<in> set (answers s). answer_matches (sessionToken userData) a) content))"

text \<open>The characters \<^verbatim>\<open>String.prototype.trim\<close> and \<^verbatim>\<open>parseFloat\<close> skip, among the
  8-bit ones: tab, line feed, vertical tab, form feed, carriage return, space and the
  no-break space.\<close>

definition is_js_space :: "char \<Rightarrow> bool" where
  "is_js_space c = (of_char c \<in> {9, 10, 11, 12, 13, 32, 160 :: nat})"

text \<open>The file URLs of one answer that the transfer loop works on:
  \<^verbatim>\<open>answer.type === 'control_fileupload' && answer.answer\<close>, a single value wrapped into
  an array, and each URL kept when it is non-empty after trimming.\<close>

definition file_urls :: "answer \<Rightarrow> string list" where
  "file_urls a =
     (if answer_type a = ''control_fileupload'' then
        filter (\<lambda>u. \<exists>c \<in> set u. \<not> is_js_space c)
          (case answer_value a of
             AFiles us \<Rightarrow> us
           | AText u \<Rightarrow> (if u = [] then [] else [u])
           | ANone \<Rightarrow> [])
      else [])"

text \<open>\<^verbatim>\<open>transferJotformFilesToGoogleDrive\<close>. The three early returns come first, in the
  order of the source. The download, the checks on the downloaded bytes and the upload
  of one file are the collaborator \<open>drive_transfer\<close>: a file it fails on is skipped
  (\<^verbatim>\<open>continue\<close>, or the inner \<^verbatim>\<open>catch\<close>). A failed fetch of the submission throws into
  the outer \<^verbatim>\<open>catch\<close>, which returns the empty array. The \<^verbatim>\<open>finally\<close> block removes the
  id from \<^verbatim>\<open>processingSubmissions\<close> on every path.\<close>

definition transferJotformFilesToGoogleDrive ::
  "string \<Rightarrow> draft \<Rightarrow> world \<Rightarrow> uploaded_file list \<times> world" where
  "transferJotformFilesToGoogleDrive submissionId userData w =
     (let finally = (\<lambda>v. v\<lparr>processingSubmissions := processingSubmissions v - {submissionId}\<rparr>)
      in if submissionId \<in> processedSubmissions w then
           (case uploadedFiles userData of Some fs \<Rightarrow> fs | None \<Rightarrow> [], finally w)
         else if (case uploadedFiles userData of Some fs \<Rightarrow> fs \<noteq> [] | None \<Rightarrow> False) then
           (case uploadedFiles userData of Some fs \<Rightarrow> fs | None \<Rightarrow> [],
            finally (w\<lparr>processedSubmissions := insert submissionId (processedSubmissions w)\<rparr>))
         else if submissionId \<in> processingSubmissions w then ([], finally w)
         else
           let w1 = w\<lparr>processingSubmissions := insert submissionId (processingSubmissions w)\<rparr>
           in case jotform_answers w1 submissionId of
                None \<Rightarrow> ([], finally w1)
              | Some ans \<Rightarrow>
                  let transferred = List.map_filter (drive_transfer w1) (concat (map file_urls ans))
                  in (transferred,
                      finally (if transferred \<noteq> []
                               then w1\<lparr>processedSubmissions :=
                                         insert submissionId (processedSubmissions w1)\<rparr>
                               else w1)))"

text \<open>The block both handlers run once files have arrived: set the files and the
  submission id on the draft (the draft object is the one stored in \<^verbatim>\<open>submissions\<close>, so
  the map sees the change), append the record to the loaded backup, save, notify, and
  mark the draft completed.\<close>

definition persist_and_notify ::
  "string \<Rightarrow> draft \<Rightarrow> string \<Rightarrow> uploaded_file list \<Rightarrow> world \<Rightarrow> draft \<times> world" where
  "persist_and_notify uid userData submissionId files w =
     (let d1 = userData\<lparr>uploadedFiles := Some files, jotformSubmissionId := Some submissionId\<rparr>;
          w1 = w\<lparr>submissions := (submissions w)(uid \<mapsto> d1)\<rparr>;
          (backupData, w2) = loadBackupFromGitHub w1;
          submissionData = \<lparr>snapshot = d1, user_id = uid,
                            record_username = (case username d1 of
                                                 None \<Rightarrow> ''Unknown User''
                                               | Some n \<Rightarrow> if n = [] then ''Unknown User'' else n),
                            submitted_at = clock w2, record_files = files\<rparr>;
          (c, w3) = saveBackupToGitHub (backupData @ [submissionData]) w2;
          w4 = sendSubmissionNotification d1 submissionId w3;
          d2 = d1\<lparr>status := ''completed''\<rparr>
      in (d2, w4\<lparr>submissions := (submissions w4)(uid \<mapsto> d2)\<rparr>))"

section \<open>The webhook handler\<close>

record webhook_request =
  submissionID :: string
  formID :: string
  raw_session_token :: string
  raw_price_token :: string

datatype http_response = Response nat string

text \<open>\<^verbatim>\<open>rawRequest.session_token || rawRequest.price_token || ''\<close>; an absent field and
  the empty string are both falsy, so both are the empty string here.\<close>

definition request_token :: "webhook_request \<Rightarrow> string" where
  "request_token r =
     (if raw_session_token r \<noteq> [] then raw_session_token r
      else if raw_price_token r \<noteq> [] then raw_price_token r else [])"

definition has_files :: "draft \<Rightarrow> bool" where
  "has_files d = (case uploadedFiles d of Some fs \<Rightarrow> fs \<noteq> [] | None \<Rightarrow> False)"

text \<open>Lines 3887 to 3918: the lookup of the draft by the token. The draft must carry
  the same token and wait for the form; a draft that already has files ends the
  handler.\<close>

datatype session_match = Matched string draft | AlreadyHasFiles | NoMatch

definition find_session :: "string \<Rightarrow> world \<Rightarrow> session_match" where
  "find_session tok w =
     (if tok = [] then NoMatch
      else case tokenToUserId w tok of
             None \<Rightarrow> NoMatch
           | Some matchedUserId \<Rightarrow>
               if matchedUserId = [] then NoMatch
               else case submissions w matchedUserId of
                      None \<Rightarrow> NoMatch
                    | Some userData \<Rightarrow>
                        if sessionToken userData = Some tok
                           \<and> status userData = ''awaiting_form_completion''
                        then (if has_files userData then AlreadyHasFiles
                              else Matched matchedUserId userData)
                        else NoMatch)"

text \<open>The three guards of lines 3861 to 3878.\<close>

definition passes_guards :: "webhook_request \<Rightarrow> world \<Rightarrow> bool" where
  "passes_guards r w =
     (submissionID r \<notin> processedSubmissions w
      \<and> submissionID r \<notin> processingSubmissions w
      \<and> \<not> (request_token r \<noteq> [] \<and> request_token r \<in> processedTokens w))"

text \<open>Lines 3881 to 3885: the three marks set before anything else is done.\<close>

definition mark_claimed :: "webhook_request \<Rightarrow> world \<Rightarrow> world" where
  "mark_claimed r w =
     w\<lparr>processedSubmissions := insert (submissionID r) (processedSubmissions w),
       processingSubmissions := insert (submissionID r) (processingSubmissions w),
       processedTokens := (if request_token r \<noteq> []
                           then insert (request_token r) (processedTokens w)
                           else processedTokens w)\<rparr>"

text \<open>\<^verbatim>\<open>app.post('/webhook/jotform')\<close>. The handler has no \<^verbatim>\<open>await\<close> before the call of
  the transfer, and on the path where a draft matches the transfer returns before its
  own first \<^verbatim>\<open>await\<close>; no other request runs in between, so one invocation is one step
  of the world. Nothing in the body throws in this model (every callee catches its own
  errors), so the 500 branch is not reached.\<close>

definition webhook_jotform :: "webhook_request \<Rightarrow> world \<Rightarrow> http_response \<times> world" where
  "webhook_jotform r w =
     (let submissionId = submissionID r; tok = request_token r
      in if submissionId \<in> processedSubmissions w then (Response 200 ''Already processed'', w)
         else if submissionId \<in> processingSubmissions w
           then (Response 200 ''Currently processing'', w)
         else if tok \<noteq> [] \<and> tok \<in> processedTokens w
           then (Response 200 ''Token already processed'', w)
         else
           let w1 = mark_claimed r w
           in case find_session tok w1 of
                AlreadyHasFiles \<Rightarrow>
                  (Response 200 ''User already has files'',
                   w1\<lparr>processingSubmissions := processingSubmissions w1 - {submissionId}\<rparr>)
              | NoMatch \<Rightarrow>
                  (Response 200 ''Webhook processed'',
                   w1\<lparr>processingSubmissions :=
                         processingSubmissions w1 - {submissionId} - {submissionId},
                       processedTokens := (if tok \<noteq> [] then processedTokens w1 - {tok}
                                           else processedTokens w1)\<rparr>)
              | Matched matchedUserId userData \<Rightarrow>
                  let (files, w2) = transferJotformFilesToGoogleDrive submissionId userData w1;
                      w3 = (if files \<noteq> [] then
                              let (d, v) = persist_and_notify matchedUserId userData
                                             submissionId files w2
                              in v\<lparr>tokenToUserId :=
                                     (case sessionToken d of
                                        Some t \<Rightarrow> (tokenToUserId v)(t := None)
                                      | None \<Rightarrow> tokenToUserId v)\<rparr>
                            else
                              w2\<lparr>processedSubmissions := processedSubmissions w2 - {submissionId},
                                 processedTokens := (if tok \<noteq> [] then processedTokens w2 - {tok}
                                                     else processedTokens w2)\<rparr>)
                  in (Response 200 ''Webhook processed'',
                      w3\<lparr>processingSubmissions := processingSubmissions w3 - {submissionId}\<rparr>))"

section \<open>The manual poll\<close>

datatype poll_outcome =
  NoFormData | CheckInProgress | AlreadyComplete | UploadCompleted | UploadFailed
  | NoSubmissionYet

text \<open>The \<^verbatim>\<open>check_upload_status\<close> button. The outcome names the message the user is
  shown. The \<^verbatim>\<open>finally\<close> block removes the \<^verbatim>\<open>status_check_\<close> key on every path inside
  the \<^verbatim>\<open>try\<close>. The re-check that the last branch schedules with \<^verbatim>\<open>setTimeout\<close> is a later
  event of its own and is not part of this step.\<close>

definition check_upload_status :: "string \<Rightarrow> world \<Rightarrow> poll_outcome \<times> world" where
  "check_upload_status uid w =
     (case submissions w uid of
        None \<Rightarrow> (NoFormData, w)
      | Some data \<Rightarrow>
         (case jotform data of
            None \<Rightarrow> (NoFormData, w)
          | Some formId \<Rightarrow>
             let statusCheckKey = ''status_check_'' @ uid
             in if statusCheckKey \<in> processingConfirmations w then (CheckInProgress, w)
                else
                  let w1 = w\<lparr>processingConfirmations :=
                                insert statusCheckKey (processingConfirmations w)\<rparr>;
                      finally = (\<lambda>v. v\<lparr>processingConfirmations :=
                                         processingConfirmations v - {statusCheckKey}\<rparr>);
                      completed = (\<lambda>v. v\<lparr>submissions :=
                                           (submissions v)(uid \<mapsto> data\<lparr>status := ''completed''\<rparr>)\<rparr>)
                  in if status data = ''completed''
                        \<and> (case jotformSubmissionId data of Some s \<Rightarrow> s \<noteq> [] | None \<Rightarrow> False)
                        \<and> has_files data
                     then (AlreadyComplete,
                           finally (w1\<lparr>submissions := (submissions w1)(uid := None)\<rparr>))
                     else if has_files data then (AlreadyComplete, finally (completed w1))
                     else if (case jotformSubmissionId data of
                                Some s \<Rightarrow> s \<noteq> [] \<and> s \<in> processedSubmissions w1
                              | None \<Rightarrow> False)
                       then (AlreadyComplete, finally (completed w1))
                     else
                       case checkForTokenBasedJotformSubmissions formId data w1 of
                         None \<Rightarrow> (NoSubmissionYet, finally w1)
                       | Some submissionId \<Rightarrow>
                           if jotformSubmissionId data = Some submissionId \<and> has_files data
                             then (AlreadyComplete, finally w1)
                           else if submissionId \<in> processedSubmissions w1
                             then (AlreadyComplete, finally w1)
                           else
                             let (files, w2) =
                                   transferJotformFilesToGoogleDrive submissionId data w1
                             in if files \<noteq> [] then
                                  let (d, w3) = persist_and_notify uid data submissionId files w2
                                  in (UploadCompleted,
                                      finally (w3\<lparr>submissions := (submissions w3)(uid := None)\<rparr>))
                                else (UploadFailed, finally w2)))"

section \<open>A concrete session\<close>

text \<open>One user who has confirmed a submission and waits for the form: the draft
  carries the token \<^verbatim>\<open>tok1\<close>, the token map leads back to the user, and the Jotform
  submission \<^verbatim>\<open>s1\<close> holds the token and one uploaded file that Drive accepts.\<close>

definition file1 :: uploaded_file where
  "file1 = \<lparr>originalName = ''spa.pdf'', driveId = ''d1'', driveLink = ''https://drive/d1''\<rparr>"

definition draft1 :: draft where
  "draft1 = \<lparr>userId = Some ''u1'', username = Some ''alice'', project_name = ''Alpha'',
              sessionToken = Some ''tok1'', status = ''awaiting_form_completion'',
              jotform = Some ''f1'', jotformSubmissionId = None, uploadedFiles = None\<rparr>"

definition answers1 :: "answer list" where
  "answers1 =
     [\<lparr>answer_name = ''price_token'', answer_type = ''control_textbox'',
       answer_value = AText ''tok1''\<rparr>,
      \<lparr>answer_name = ''documents'', answer_type = ''control_fileupload'',
       answer_value = AFiles [''https://jotform/spa.pdf'']\<rparr>]"

definition world1 :: world where
  "world1 =
     \<lparr>submissions = [''u1'' \<mapsto> draft1],
      tokenToUserId = [''tok1'' \<mapsto> ''u1''],
      processingConfirmations = {},
      processedSubmissions = {},
      processingSubmissions = {},
      processedTokens = {},
      notificationsSent = {},
      github_file = None,
      github_replies = [],
      github_calls = [],
      timeouts = [],
      console = [],
      jotform_forms = (\<lambda>f. if f = ''f1''
                             then Some [\<lparr>submission_id = ''s1'', answers = answers1\<rparr>]
                             else None),
      jotform_answers = (\<lambda>s. if s = ''s1'' then Some answers1 else None),
      drive_transfer = (\<lambda>u. if u = ''https://jotform/spa.pdf'' then Some file1 else None),
      channel = Some [],
      clock = 0\<rparr>"

text \<open>The webhook event Jotform posts for that submission, an event without any token,
  and one with a token nobody holds.\<close>

definition request1 :: webhook_request where
  "request1 = \<lparr>submissionID = ''s1'', formID = ''f1'',
                raw_session_token = [], raw_price_token = ''tok1''\<rparr>"

definition request_no_token :: webhook_request where
  "request_no_token = \<lparr>submissionID = ''s9'', formID = ''f1'',
                        raw_session_token = [], raw_price_token = []\<rparr>"

definition request_unknown_token :: webhook_request where
  "request_unknown_token = \<lparr>submissionID = ''s9'', formID = ''f1'',
                             raw_session_token = ''tok7'', raw_price_token = []\<rparr>"

text \<open>The same session when Drive refuses the file, and a repository that answers
  every write with a version conflict.\<close>

definition world_drive_down :: world where
  "world_drive_down = world1\<lparr>drive_transfer := (\<lambda>u. None)\<rparr>"

definition record1 :: submission_record where
  "record1 = \<lparr>snapshot = draft1, user_id = ''u1'', record_username = ''alice'',
               submitted_at = 0, record_files = [file1]\<rparr>"

definition world_conflict :: world where
  "world_conflict = world1\<lparr>github_replies := [Conflict [], Reject 409, Conflict []]\<rparr>"

section \<open>JavaScript numbers\<close>

text \<open>
  The commission arithmetic runs on JavaScript Numbers, that is on IEEE 754 binary64
  values. A Number is \<open>NaN\<close>, an infinity, or a finite value \<open>Fin m e\<close> that stands
  for \<open>m * 2 ^ e\<close>, kept with an odd \<open>m\<close> (zero is \<open>Fin 0 0\<close>). Every operation
  computes the exact rational result and rounds it to the nearest binary64 value, ties to
  the even significand, as the standard prescribes. The sign of zero is not kept: the
  code under study never divides by a computed value, and \<^verbatim>\<open>toFixed\<close>, \<^verbatim>\<open>Math.abs\<close>,
  \<^verbatim>\<open><\<close>, \<^verbatim>\<open>+\<close>, \<^verbatim>\<open>||\<close> and \<^verbatim>\<open>String\<close> do not tell the two zeros apart.
\<close>

datatype jsnum = NaN | PosInf | NegInf | Fin int int

text \<open>The number of binary digits of a positive integer.\<close>

function bitlen :: "int \<Rightarrow> int" where
  "bitlen n = (if n \<le> 0 then 0 else 1 + bitlen (n div 2))"
  by pat_completeness auto
termination
  by (relation "measure nat") auto

declare bitlen.simps [simp del]

text \<open>The normal form of \<open>m * 2 ^ e\<close>: factors of two move into the exponent.\<close>

function norm2 :: "int \<Rightarrow> int \<Rightarrow> int \<times> int" where
  "norm2 m e = (if m = 0 then (0, 0) else if even m then norm2 (m div 2) (e + 1) else (m, e))"
  by pat_completeness auto
termination
  by (relation "measure (\<lambda>(m, e). nat \<bar>m\<bar>)") auto

declare norm2.simps [simp del]

text \<open>
  The binary64 value nearest to the positive rational \<open>p / q\<close>, with the sign \<open>neg\<close>.
  \<open>e\<close> is the binary exponent of the quotient, \<open>2 ^ e \<le> p / q < 2 ^ (e + 1)\<close>; the
  significand has 53 bits, so the unit of the last place is \<open>2 ^ (e - 52)\<close>, and not
  below \<open>2 ^ (- 1074)\<close> (the subnormal range). \<open>f\<close> and \<open>r\<close> are quotient and remainder
  in units of the last place. A result of \<open>2 ^ 1024\<close> or more is an infinity.
\<close>

definition round_ratio :: "bool \<Rightarrow> int \<Rightarrow> int \<Rightarrow> jsnum" where
  "round_ratio neg p q =
     (if p \<le> 0 \<or> q \<le> 0 then Fin 0 0
      else
        let d = bitlen p - bitlen q;
            e = (if p * 2 ^ nat (- d) < q * 2 ^ nat d then d - 1 else d);
            sh = max e (- 1022) - 52;
            num = p * 2 ^ nat (- sh);
            den = q * 2 ^ nat sh;
            f = num div den;
            r = num mod den;
            m = (if 2 * r < den then f else if den < 2 * r then f + 1
                 else if even f then f else f + 1)
        in if 1024 < sh + bitlen m then (if neg then NegInf else PosInf)
           else case norm2 m sh of (m', e') \<Rightarrow> Fin (if neg then - m' else m') e')"

definition from_dyadic :: "int \<Rightarrow> int \<Rightarrow> jsnum" where
  "from_dyadic m e = round_ratio (m < 0) (\<bar>m\<bar> * 2 ^ nat e) (2 ^ nat (- e))"

fun js_neg :: "jsnum \<Rightarrow> jsnum" where
  "js_neg NaN = NaN"
| "js_neg PosInf = NegInf"
| "js_neg NegInf = PosInf"
| "js_neg (Fin m e) = Fin (- m) e"

text \<open>\<^verbatim>\<open>Math.abs\<close>.\<close>

fun js_abs :: "jsnum \<Rightarrow> jsnum" where
  "js_abs NaN = NaN"
| "js_abs PosInf = PosInf"
| "js_abs NegInf = PosInf"
| "js_abs (Fin m e) = Fin \<bar>m\<bar> e"

text \<open>\<^verbatim>\<open>+\<close> on two Numbers.\<close>

fun js_add :: "jsnum \<Rightarrow> jsnum \<Rightarrow> jsnum" where
  "js_add (Fin m1 e1) (Fin m2 e2) =
     from_dyadic (m1 * 2 ^ nat (e1 - min e1 e2) + m2 * 2 ^ nat (e2 - min e1 e2)) (min e1 e2)"
| "js_add NaN b = NaN"
| "js_add a NaN = NaN"
| "js_add (Fin m e) b = b"
| "js_add a (Fin m e) = a"
| "js_add a b = (if a = b then a else NaN)"

definition js_sub :: "jsnum \<Rightarrow> jsnum \<Rightarrow> jsnum" where
  "js_sub a b = js_add a (js_neg b)"

text \<open>\<^verbatim>\<open>*\<close>: an infinity times zero is \<open>NaN\<close>.\<close>

fun js_mul :: "jsnum \<Rightarrow> jsnum \<Rightarrow> jsnum" where
  "js_mul (Fin m1 e1) (Fin m2 e2) = from_dyadic (m1 * m2) (e1 + e2)"
| "js_mul NaN b = NaN"
| "js_mul a NaN = NaN"
| "js_mul (Fin m e) b =
     (if m = 0 then NaN else if (m < 0) = (b = NegInf) then PosInf else NegInf)"
| "js_mul a (Fin m e) =
     (if m = 0 then NaN else if (m < 0) = (a = NegInf) then PosInf else NegInf)"
| "js_mul a b = (if a = b then PosInf else NegInf)"

text \<open>\<^verbatim>\<open>/\<close>. A zero divisor is taken as the positive zero.\<close>

fun js_div :: "jsnum \<Rightarrow> jsnum \<Rightarrow> jsnum" where
  "js_div (Fin m1 e1) (Fin m2 e2) =
     (if m2 = 0 then (if m1 = 0 then NaN else if m1 < 0 then NegInf else PosInf)
      else round_ratio ((m1 < 0) \<noteq> (m2 < 0))
             (\<bar>m1\<bar> * 2 ^ nat (e1 - e2)) (\<bar>m2\<bar> * 2 ^ nat (e2 - e1)))"
| "js_div NaN b = NaN"
| "js_div a NaN = NaN"
| "js_div (Fin m e) b = Fin 0 0"
| "js_div a (Fin m e) = (if (m < 0) = (a = NegInf) then PosInf else NegInf)"
| "js_div a b = NaN"

text \<open>\<^verbatim>\<open><\<close>: false as soon as one side is \<open>NaN\<close>.\<close>

fun js_lt :: "jsnum \<Rightarrow> jsnum \<Rightarrow> bool" where
  "js_lt (Fin m1 e1) (Fin m2 e2) =
     (m1 * 2 ^ nat (e1 - min e1 e2) < m2 * 2 ^ nat (e2 - min e1 e2))"
| "js_lt NaN b = False"
| "js_lt a NaN = False"
| "js_lt NegInf b = (b \<noteq> NegInf)"
| "js_lt a PosInf = (a \<noteq> PosInf)"
| "js_lt a b = False"

text \<open>
  The real number that a finite Number stands for, and the Numbers of the normal range:
  the finite ones of magnitude \<open>2 ^ (- 1022)\<close> or more. An operation whose result is
  in the normal range has neither overflowed nor underflowed.
\<close>

fun value_of :: "jsnum \<Rightarrow> real" where
  "value_of (Fin m e) = real_of_int m * 2 powi e"
| "value_of x = 0"

fun normal_number :: "jsnum \<Rightarrow> bool" where
  "normal_number (Fin m e) = (2 powi (- 1022) \<le> \<bar>real_of_int m * 2 powi e\<bar>)"
| "normal_number x = False"

section \<open>Numbers and strings\<close>

definition is_digit :: "char \<Rightarrow> bool" where
  "is_digit c = (48 \<le> (of_char c :: nat) \<and> (of_char c :: nat) \<le> 57)"

fun digits_value :: "int \<Rightarrow> string \<Rightarrow> int" where
  "digits_value acc [] = acc"
| "digits_value acc (c # cs) = digits_value (acc * 10 + (int (of_char c) - 48)) cs"

text \<open>The value of the exponent part at the head of the string, \<^verbatim>\<open>e\<close> or \<^verbatim>\<open>E\<close>, an
  optional sign and at least one digit; 0 when there is none.\<close>

definition exponent_part :: "string \<Rightarrow> int" where
  "exponent_part s =
     (case s of
        [] \<Rightarrow> 0
      | c # cs \<Rightarrow>
          if c = CHR ''e'' \<or> c = CHR ''E'' then
            (case cs of
               [] \<Rightarrow> 0
             | d # ds \<Rightarrow>
                 if d = CHR ''-'' then - digits_value 0 (takeWhile is_digit ds)
                 else if d = CHR ''+'' then digits_value 0 (takeWhile is_digit ds)
                 else digits_value 0 (takeWhile is_digit cs))
          else 0)"

text \<open>The longest prefix that is a decimal literal, after the sign: \<^verbatim>\<open>Infinity\<close>, or
  digits with an optional fraction and exponent, or a fraction that starts with the
  point. No such prefix gives \<open>NaN\<close>.\<close>

definition unsigned_literal :: "bool \<Rightarrow> string \<Rightarrow> jsnum" where
  "unsigned_literal neg s =
     (if prefix ''Infinity'' s then (if neg then NegInf else PosInf)
      else
        let ip = takeWhile is_digit s;
            r1 = dropWhile is_digit s;
            dot = (case r1 of [] \<Rightarrow> False | c # cs \<Rightarrow> c = CHR ''.'');
            fp = (if dot then takeWhile is_digit (tl r1) else []);
            r2 = (if dot then dropWhile is_digit (tl r1) else r1)
        in if ip = [] \<and> fp = [] then NaN
           else
             let x = exponent_part r2 - int (length fp);
                 n = digits_value 0 (ip @ fp)
             in round_ratio neg (n * 10 ^ nat x) (10 ^ nat (- x)))"

text \<open>\<^verbatim>\<open>parseFloat\<close> on a string: leading white space is skipped, then a sign, then the
  literal.\<close>

definition parseFloat_string :: "string \<Rightarrow> jsnum" where
  "parseFloat_string s =
     (case dropWhile is_js_space s of
        [] \<Rightarrow> NaN
      | c # cs \<Rightarrow>
          if c = CHR ''-'' then unsigned_literal True cs
          else if c = CHR ''+'' then unsigned_literal False cs
          else unsigned_literal False (c # cs))"

text \<open>The decimal digits of a natural number.\<close>

function show_int :: "int \<Rightarrow> string" where
  "show_int n = (if n < 10 then [''0123456789'' ! nat n]
                 else show_int (n div 10) @ [''0123456789'' ! nat (n mod 10)])"
  by pat_completeness auto
termination
  by (relation "measure nat") auto

declare show_int.simps [simp del]

text \<open>
  \<^verbatim>\<open>Number::toString\<close> for a positive finite value \<open>m * 2 ^ e\<close>: the shortest digit
  string \<open>s\<close> of \<open>k\<close> digits and the exponent \<open>n\<close> with
  \<open>s * 10 ^ (n - k)\<close> rounding to the value; among several \<open>s\<close> of that length the
  one closest to the value (then the even one), as the engines do. \<open>n0\<close> is the number of
  digits before the decimal point; \<open>n\<close> is \<open>n0\<close>, or \<open>n0 + 1\<close> when the digits round
  up to the next power of ten. Seventeen digits always suffice for a binary64 value.
\<close>

definition decimal_is :: "int \<Rightarrow> int \<Rightarrow> int \<Rightarrow> int \<Rightarrow> bool" where
  "decimal_is s x m e = (round_ratio False (s * 10 ^ nat x) (10 ^ nat (- x)) = Fin m e)"

definition digits_before_point :: "int \<Rightarrow> int \<Rightarrow> int" where
  "digits_before_point m e =
     (let g = ((bitlen m + e - 1) * 30103) div 100000;
          below = (\<lambda>k. m * 2 ^ nat e * 10 ^ nat (- k) < 10 ^ nat k * 2 ^ nat (- e))
      in if below g then g else if below (g + 1) then g + 1 else g + 2)"

definition candidates :: "int \<Rightarrow> int \<Rightarrow> int \<Rightarrow> int \<Rightarrow> (int \<times> int) list" where
  "candidates m e k n =
     (let lo = (m * 2 ^ nat e * 10 ^ nat (k - n)) div (2 ^ nat (- e) * 10 ^ nat (n - k))
      in map (\<lambda>s. (s, n))
           (filter (\<lambda>s. 10 ^ nat (k - 1) \<le> s \<and> s < 10 ^ nat k \<and> decimal_is s (n - k) m e)
              [lo, lo + 1]))"

text \<open>The distance of the candidate \<open>(s, n)\<close> from the value, in a unit common to all
  candidates of one \<open>k\<close>.\<close>

definition distance :: "int \<Rightarrow> int \<Rightarrow> int \<Rightarrow> int \<Rightarrow> int \<times> int \<Rightarrow> int" where
  "distance m e k n0 c =
     \<bar>fst c * 10 ^ nat (snd c - n0) * 2 ^ nat (- e) * 10 ^ nat (n0 - k)
       - m * 2 ^ nat e * 10 ^ nat (k - n0)\<bar>"

fun closest :: "int \<Rightarrow> int \<Rightarrow> int \<Rightarrow> int \<Rightarrow> int \<times> int \<Rightarrow> (int \<times> int) list \<Rightarrow> int \<times> int" where
  "closest m e k n0 best [] = best"
| "closest m e k n0 best (c # cs) =
     closest m e k n0
       (if distance m e k n0 c < distance m e k n0 best
           \<or> (distance m e k n0 c = distance m e k n0 best \<and> odd (fst best) \<and> even (fst c))
        then c else best) cs"

function shortest_from :: "int \<Rightarrow> int \<Rightarrow> int \<Rightarrow> int \<Rightarrow> int \<times> int \<times> int" where
  "shortest_from k m e n0 =
     (case candidates m e k n0 @ candidates m e k (n0 + 1) of
        c # cs \<Rightarrow> (case closest m e k n0 c cs of (s, n) \<Rightarrow> (k, s, n))
      | [] \<Rightarrow>
          (if 17 \<le> k
           then (k, (m * 2 ^ nat e * 10 ^ nat (k - n0)) div (2 ^ nat (- e) * 10 ^ nat (n0 - k)), n0)
           else shortest_from (k + 1) m e n0))"
  by pat_completeness auto
termination
  by (relation "measure (\<lambda>(k, m, e, n0). nat (17 - k))") auto

declare shortest_from.simps [simp del]

text \<open>The four layouts of \<^verbatim>\<open>Number::toString\<close>: an integer, a decimal fraction, a
  fraction below one, and the exponent notation.\<close>

definition positive_to_string :: "int \<Rightarrow> int \<Rightarrow> string" where
  "positive_to_string m e =
     (case shortest_from 1 m e (digits_before_point m e) of
        (k, s, n) \<Rightarrow>
          let ds = show_int s in
          if k \<le> n \<and> n \<le> 21 then ds @ replicate (nat (n - k)) (CHR ''0'')
          else if 0 < n \<and> n \<le> 21 then take (nat n) ds @ ''.'' @ drop (nat n) ds
          else if - 6 < n \<and> n \<le> 0 then ''0.'' @ replicate (nat (- n)) (CHR ''0'') @ ds
          else (if k = 1 then ds else take 1 ds @ ''.'' @ drop 1 ds)
               @ ''e'' @ (if n - 1 < 0 then ''-'' else ''+'') @ show_int \<bar>n - 1\<bar>)"

fun number_to_string :: "jsnum \<Rightarrow> string" where
  "number_to_string NaN = ''NaN''"
| "number_to_string PosInf = ''Infinity''"
| "number_to_string NegInf = ''-Infinity''"
| "number_to_string (Fin m e) =
     (if m = 0 then ''0''
      else if m < 0 then ''-'' @ positive_to_string (- m) e
      else positive_to_string m e)"

text \<open>The digits of \<open>n\<close> hundredths as a decimal with two places: padded with zeros
  to three digits, and the point before the last two.\<close>

definition fixed2 :: "int \<Rightarrow> string" where
  "fixed2 n =
     (let ds = show_int n;
          padded = replicate (3 - length ds) (CHR ''0'') @ ds
      in take (length padded - 2) padded @ ''.'' @ drop (length padded - 2) padded)"

text \<open>
  \<^verbatim>\<open>Number.prototype.toFixed(2)\<close>. A value that is not finite prints as
  \<^verbatim>\<open>String\<close> prints it; so does a value of magnitude \<open>10 ^ 21\<close> or more. Below that,
  the integer \<open>n\<close> with \<open>n / 100\<close> nearest to the magnitude is printed, the larger
  \<open>n\<close> on a tie: \<open>n = \<lfloor>100 * x + 1/2\<rfloor>\<close>.
\<close>

fun toFixed2 :: "jsnum \<Rightarrow> string" where
  "toFixed2 NaN = ''NaN''"
| "toFixed2 PosInf = ''Infinity''"
| "toFixed2 NegInf = ''-Infinity''"
| "toFixed2 (Fin m e) =
     (if 10 ^ 21 * 2 ^ nat (- e) \<le> \<bar>m\<bar> * 2 ^ nat e then number_to_string (Fin m e)
      else (if m < 0 then ''-'' else [])
           @ fixed2 ((\<bar>m\<bar> * 2 ^ nat e * 200 + 2 ^ nat (- e)) div (2 * 2 ^ nat (- e))))"

section \<open>Values and objects\<close>

datatype jsval = JUndefined | JNull | JBool bool | JNum jsnum | JStr string

fun truthy :: "jsval \<Rightarrow> bool" where
  "truthy JUndefined = False"
| "truthy JNull = False"
| "truthy (JBool b) = b"
| "truthy (JNum NaN) = False"
| "truthy (JNum (Fin m e)) = (m \<noteq> 0)"
| "truthy (JNum x) = True"
| "truthy (JStr s) = (s \<noteq> [])"

text \<open>\<^verbatim>\<open>a || b\<close>.\<close>

definition js_or :: "jsval \<Rightarrow> jsval \<Rightarrow> jsval" where
  "js_or a b = (if truthy a then a else b)"

text \<open>\<^verbatim>\<open>String(v)\<close>.\<close>

fun to_string :: "jsval \<Rightarrow> string" where
  "to_string JUndefined = ''undefined''"
| "to_string JNull = ''null''"
| "to_string (JBool b) = (if b then ''true'' else ''false'')"
| "to_string (JNum x) = number_to_string x"
| "to_string (JStr s) = s"

text \<open>\<^verbatim>\<open>parseFloat(v)\<close> converts its argument to a string first.\<close>

definition parseFloat :: "jsval \<Rightarrow> jsnum" where
  "parseFloat v = parseFloat_string (to_string v)"

text \<open>An object is the map of its own properties; reading a property that is not
  there gives \<^verbatim>\<open>undefined\<close>.\<close>

type_synonym jsobj = "string \<rightharpoonup> jsval"

definition property :: "jsobj \<Rightarrow> string \<Rightarrow> jsval" where
  "property obj k = (case obj k of None \<Rightarrow> JUndefined | Some v \<Rightarrow> v)"

section \<open>Commission calculator and percentage validator\<close>

text \<open>The literals \<^verbatim>\<open>0\<close>, \<^verbatim>\<open>50\<close>, \<^verbatim>\<open>100\<close> and \<^verbatim>\<open>0.01\<close> of the source. The last one
  is the binary64 value nearest to one hundredth, a little above it.\<close>

definition js_0 :: jsnum where "js_0 = Fin 0 0"
definition js_50 :: jsnum where "js_50 = Fin 25 1"
definition js_100 :: jsnum where "js_100 = Fin 25 2"
definition js_0_01 :: jsnum where "js_0_01 = Fin 5764607523034235 (- 59)"

text \<open>\<^verbatim>\<open>validateAgentPercentages\<close>: the sum runs over every element of the array it
  is given.\<close>

definition validateAgentPercentages :: "jsobj list \<Rightarrow> bool" where
  "validateAgentPercentages agents =
     (let total = foldl (\<lambda>sum agent.
                    js_add sum (parseFloat (js_or (property agent ''percentage'') (JNum js_0))))
                  js_0 agents
      in js_lt (js_abs (js_sub total js_100)) js_0_01)"

text \<open>\<^verbatim>\<open>parseFloat(agent.percentage) || 0\<close>.\<close>

definition agentPercentage :: "jsobj \<Rightarrow> jsnum" where
  "agentPercentage agent =
     (let p = parseFloat (property agent ''percentage'')
      in if truthy (JNum p) then p else js_0)"

text \<open>\<^verbatim>\<open>calculateCommissions\<close>. The spread \<^verbatim>\<open>{...agent, commission: ...}\<close> copies every
  property of the agent and sets \<^verbatim>\<open>commission\<close>.\<close>

definition calculateCommissions :: "jsval \<Rightarrow> jsval \<Rightarrow> jsobj list \<Rightarrow> jsobj list" where
  "calculateCommissions nettPrice commissionRate agents =
     (let cleanNettPrice = filter (\<lambda>c. c \<noteq> CHR '','') (to_string nettPrice);
          nett = parseFloat_string cleanNettPrice;
          rate = parseFloat commissionRate;
          totalCommission = js_div (js_mul nett rate) js_100
      in map (\<lambda>agent.
                let agentCommission =
                      js_div (js_mul totalCommission (agentPercentage agent)) js_100
                in agent(''commission'' \<mapsto> JStr (toFixed2 agentCommission)))
           agents)"

text \<open>The validator as the specification words it: the shares are summed over the
  participants with a non-empty name only.\<close>

definition spec_isValid :: "jsobj list \<Rightarrow> bool" where
  "spec_isValid participants =
     validateAgentPercentages (filter (\<lambda>a. truthy (property a ''name'')) participants)"

text \<open>The filter that the callers of the validator and of the calculator apply to the
  list first (lines 1654, 2208 and 2257),
  \<^verbatim>\<open>data.agents.filter(agent => agent && agent.name)\<close>.\<close>

definition named_agents :: "jsobj list \<Rightarrow> jsobj list" where
  "named_agents agents = filter (\<lambda>agent. truthy (property agent ''name'')) agents"

text \<open>
  The sum of the shares of a list, to state what the validator computes: the share of a
  slot is \<^verbatim>\<open>parseFloat(agent.percentage || 0)\<close>, and the shares of all slots are added
  one after the other from the left, in binary64, starting from 0.
\<close>

definition share_of :: "jsobj \<Rightarrow> jsnum" where
  "share_of agent = parseFloat (js_or (property agent ''percentage'') (JNum js_0))"

primrec add_shares :: "jsnum \<Rightarrow> jsobj list \<Rightarrow> jsnum" where
  "add_shares acc [] = acc"
| "add_shares acc (agent # agents) = add_shares (js_add acc (share_of agent)) agents"

definition sum_of_shares :: "jsobj list \<Rightarrow> jsnum" where
  "sum_of_shares agents = add_shares js_0 agents"

section \<open>Fast-commission settings\<close>

text \<open>\<^verbatim>\<open>String.prototype.toLowerCase\<close> on 8-bit characters: the letters A to Z and the
  capital letters of Latin-1.\<close>

definition lower_char :: "char \<Rightarrow> char" where
  "lower_char c =
     (let n = (of_char c :: nat)
      in if (65 \<le> n \<and> n \<le> 90) \<or> (192 \<le> n \<and> n \<le> 222 \<and> n \<noteq> 215) then char_of (n + 32)
         else c)"

definition toLowerCase :: "string \<Rightarrow> string" where
  "toLowerCase s = map lower_char s"

text \<open>The in-memory step of \<^verbatim>\<open>saveFastCommissionPercentage\<close> (line 112), and
  \<^verbatim>\<open>getFastCommissionPercentage\<close>.\<close>

definition setFastCommissionPercentage :: "jsobj \<Rightarrow> string \<Rightarrow> jsval \<Rightarrow> jsobj" where
  "setFastCommissionPercentage fastCommissionPercentages projectName percentage =
     fastCommissionPercentages(toLowerCase projectName \<mapsto> percentage)"

definition getFastCommissionPercentage :: "jsobj \<Rightarrow> string \<Rightarrow> jsval" where
  "getFastCommissionPercentage fastCommissionPercentages projectName =
     js_or (property fastCommissionPercentages (toLowerCase projectName)) (JNum js_50)"

section \<open>Sample participants\<close>

definition agent_A :: jsobj where
  "agent_A = [''name'' \<mapsto> JStr ''A'', ''code'' \<mapsto> JStr ''C01'', ''percentage'' \<mapsto> JNum (Fin 15 2)]"

definition agent_B :: jsobj where
  "agent_B = [''name'' \<mapsto> JStr ''B'', ''code'' \<mapsto> JStr ''C02'', ''percentage'' \<mapsto> JNum (Fin 5 3)]"

text \<open>A participant with the name \<open>nm\<close> and the share \<open>pct\<close>.\<close>

definition participant :: "string \<Rightarrow> jsval \<Rightarrow> jsobj" where
  "participant nm pct = [''name'' \<mapsto> JStr nm, ''percentage'' \<mapsto> pct]"

section \<open>Properties of the backup client\<close>

lemmas handler_defs =
  webhook_jotform_def mark_claimed_def request_token_def find_session_def has_files_def
  passes_guards_def transferJotformFilesToGoogleDrive_def check_upload_status_def
  checkForTokenBasedJotformSubmissions_def answer_matches_def token_text_def
  persist_and_notify_def loadBackupFromGitHub_def saveBackupToGitHub_def put_attempt_def
  sendSubmissionNotification_def notificationKey_def file_urls_def is_js_space_def
  List.map_filter_def Let_def

lemmas session_defs =
  world1_def draft1_def answers1_def file1_def request1_def

lemma put_attempt_memory:
  "submissions (snd (put_attempt data w)) = submissions w"
  "tokenToUserId (snd (put_attempt data w)) = tokenToUserId w"
  "processingConfirmations (snd (put_attempt data w)) = processingConfirmations w"
  "processedSubmissions (snd (put_attempt data w)) = processedSubmissions w"
  "processingSubmissions (snd (put_attempt data w)) = processingSubmissions w"
  "processedTokens (snd (put_attempt data w)) = processedTokens w"
  "notificationsSent (snd (put_attempt data w)) = notificationsSent w"
  "channel (snd (put_attempt data w)) = channel w"
  by (simp_all add: put_attempt_def Let_def split: list.split api_reply.split)

lemma put_attempt_trace:
  "github_calls (snd (put_attempt data w)) =
     github_calls w @ [GetContent, PutContent (map_option snd (github_file w))]"
  "timeouts (snd (put_attempt data w)) = timeouts w"
  by (simp_all add: put_attempt_def Let_def split: list.split api_reply.split)

lemma save_loop_memory:
  "submissions (snd (save_loop n data w)) = submissions w
   \<and> tokenToUserId (snd (save_loop n data w)) = tokenToUserId w
   \<and> processingConfirmations (snd (save_loop n data w)) = processingConfirmations w
   \<and> processedSubmissions (snd (save_loop n data w)) = processedSubmissions w
   \<and> processingSubmissions (snd (save_loop n data w)) = processingSubmissions w
   \<and> processedTokens (snd (save_loop n data w)) = processedTokens w
   \<and> notificationsSent (snd (save_loop n data w)) = notificationsSent w
   \<and> channel (snd (save_loop n data w)) = channel w"
proof (induction n arbitrary: w)
  case 0
  show ?case by simp
next
  case (Suc n)
  obtain r w1 where p: "put_attempt data w = (r, w1)" by (cases "put_attempt data w")
  have m: "submissions w1 = submissions w" "tokenToUserId w1 = tokenToUserId w"
    "processingConfirmations w1 = processingConfirmations w"
    "processedSubmissions w1 = processedSubmissions w"
    "processingSubmissions w1 = processingSubmissions w"
    "processedTokens w1 = processedTokens w"
    "notificationsSent w1 = notificationsSent w" "channel w1 = channel w"
    using put_attempt_memory [of data w] by (simp_all add: p)
  show ?case
  proof (cases r)
    case None
    then show ?thesis using p m by simp
  next
    case (Some st)
    then show ?thesis using p m Suc.IH by simp
  qed
qed

text \<open>The calls the loop adds are pairs of a read and a write, at most as many as
  there are retries, with one wait of 1000 ms between two pairs.\<close>

lemma save_loop_trace:
  "\<exists>shas. (n = 0 \<longrightarrow> shas = []) \<and> (n \<noteq> 0 \<longrightarrow> shas \<noteq> []) \<and> length shas \<le> n
       \<and> github_calls (snd (save_loop n data w)) =
           github_calls w @ concat (map (\<lambda>s. [GetContent, PutContent s]) shas)
       \<and> timeouts (snd (save_loop n data w)) = timeouts w @ replicate (length shas - 1) 1000"
proof (induction n arbitrary: w)
  case 0
  show ?case by simp
next
  case (Suc n)
  obtain r w1 where p: "put_attempt data w = (r, w1)" by (cases "put_attempt data w")
  let ?sha = "map_option snd (github_file w)"
  have t: "github_calls w1 = github_calls w @ [GetContent, PutContent ?sha]"
    "timeouts w1 = timeouts w"
    using put_attempt_trace [of data w] by (simp_all add: p)
  show ?case
  proof (cases "\<exists>st. r = Some st \<and> st = 409 \<and> 1 < Suc n")
    case False
    then have "snd (save_loop (Suc n) data w) = w1"
      using p by (cases r) auto
    then show ?thesis using t by (intro exI [of _ "[?sha]"]) simp
  next
    case True
    let ?w2 = "w1\<lparr>console := console w1 @ [LogConflict n], timeouts := timeouts w1 @ [1000]\<rparr>"
    from True have s: "save_loop (Suc n) data w = save_loop n data ?w2" and n: "n \<noteq> 0"
      using p by auto
    from Suc.IH [of ?w2] n obtain shas where k: "shas \<noteq> []" "length shas \<le> n"
      "github_calls (snd (save_loop n data ?w2)) =
         github_calls ?w2 @ concat (map (\<lambda>s. [GetContent, PutContent s]) shas)"
      "timeouts (snd (save_loop n data ?w2)) = timeouts ?w2 @ replicate (length shas - 1) 1000"
      by auto
    from k(1) have r: "replicate (length shas) (1000::nat) = 1000 # replicate (length shas - 1) 1000"
      by (cases shas) simp_all
    show ?thesis
      using k t s r by (intro exI [of _ "?sha # shas"]) simp
  qed
qed

lemma save_loop_exhausted:
  assumes "github_replies w = r1 # r2 # r3 # rs"
    and "reply_status r1 = Some 409" "reply_status r2 = Some 409" "reply_status r3 = Some 409"
  shows "fst (save_loop 3 data w) = Some 409
     \<and> console (snd (save_loop 3 data w)) = console w @ [LogConflict 2, LogConflict 1]
     \<and> length (github_calls (snd (save_loop 3 data w))) = length (github_calls w) + 6
     \<and> github_replies (snd (save_loop 3 data w)) = rs"
  using assms
  by (cases r1; cases r2; cases r3)
     (simp_all add: numeral_3_eq_3 put_attempt_def Let_def)

lemma save_memory:
  "submissions (snd (saveBackupToGitHub data w)) = submissions w"
  "tokenToUserId (snd (saveBackupToGitHub data w)) = tokenToUserId w"
  "channel (snd (saveBackupToGitHub data w)) = channel w"
  "notificationsSent (snd (saveBackupToGitHub data w)) = notificationsSent w"
  "processedSubmissions (snd (saveBackupToGitHub data w)) = processedSubmissions w"
  "processingSubmissions (snd (saveBackupToGitHub data w)) = processingSubmissions w"
  "processedTokens (snd (saveBackupToGitHub data w)) = processedTokens w"
  using save_loop_memory [of 3 data w]
  by (cases "save_loop 3 data w"; cases "fst (save_loop 3 data w)";
      simp add: saveBackupToGitHub_def)+

lemma save_trace:
  "github_calls (snd (saveBackupToGitHub data w)) = github_calls (snd (save_loop 3 data w))"
  "timeouts (snd (saveBackupToGitHub data w)) = timeouts (snd (save_loop 3 data w))"
  by (cases "save_loop 3 data w"; cases "fst (save_loop 3 data w)";
      simp add: saveBackupToGitHub_def)+

text \<open>
  \<^bold>\<open>C5\<close>, as the code has it. For every list of records and every state of the world,
  \<^verbatim>\<open>saveBackupToGitHub\<close> makes between one and three write attempts, reads the version
  token anew before each of them, and waits 1000 ms between two attempts; it leaves
  the drafts and the token map alone. It always returns to its caller: when three
  attempts in a row end in a conflict, the error is written to the console and the call
  returns as it does after a write that went through.
\<close>

theorem saveBackupToGitHub_bounded_retry_logs_failure:
  "fst (saveBackupToGitHub data w) = Returns
   \<and> (\<exists>shas. shas \<noteq> [] \<and> length shas \<le> 3
         \<and> github_calls (snd (saveBackupToGitHub data w)) =
             github_calls w @ concat (map (\<lambda>s. [GetContent, PutContent s]) shas)
         \<and> timeouts (snd (saveBackupToGitHub data w)) =
             timeouts w @ replicate (length shas - 1) 1000)
   \<and> submissions (snd (saveBackupToGitHub data w)) = submissions w
   \<and> tokenToUserId (snd (saveBackupToGitHub data w)) = tokenToUserId w
   \<and> (\<forall>r1 r2 r3 rs.
         github_replies w = r1 # r2 # r3 # rs \<and> reply_status r1 = Some 409
         \<and> reply_status r2 = Some 409 \<and> reply_status r3 = Some 409
         \<longrightarrow> console (snd (saveBackupToGitHub data w)) =
               console w @ [LogConflict 2, LogConflict 1, LogSaveFailed 409]
             \<and> length (github_calls (snd (saveBackupToGitHub data w))) =
                 length (github_calls w) + 6)"
proof -
  have returns: "fst (saveBackupToGitHub data w) = Returns"
    by (simp add: saveBackupToGitHub_def split: prod.split option.split)
  have trace: "\<exists>shas. shas \<noteq> [] \<and> length shas \<le> 3
         \<and> github_calls (snd (saveBackupToGitHub data w)) =
             github_calls w @ concat (map (\<lambda>s. [GetContent, PutContent s]) shas)
         \<and> timeouts (snd (saveBackupToGitHub data w)) =
             timeouts w @ replicate (length shas - 1) 1000"
    using save_loop_trace [of 3 data w] by (simp add: save_trace)
  have exhausted: "console (snd (saveBackupToGitHub data w)) =
               console w @ [LogConflict 2, LogConflict 1, LogSaveFailed 409]
             \<and> length (github_calls (snd (saveBackupToGitHub data w))) =
                 length (github_calls w) + 6"
    if "github_replies w = r1 # r2 # r3 # rs" "reply_status r1 = Some 409"
      "reply_status r2 = Some 409" "reply_status r3 = Some 409" for r1 r2 r3 rs
    using save_loop_exhausted [OF that, of data]
    by (cases "save_loop 3 data w") (simp add: saveBackupToGitHub_def)
  show ?thesis
    using returns trace exhausted save_memory(1,2) by blast
qed

theorem saveBackupToGitHub_bounded_retry_logs_failure_witness:
  "github_replies world_conflict = [Conflict [], Reject 409, Conflict []]
   \<and> reply_status (Conflict []) = Some 409 \<and> reply_status (Reject 409) = Some 409
   \<and> fst (saveBackupToGitHub [record1] world_conflict) = Returns
   \<and> console (snd (saveBackupToGitHub [record1] world_conflict)) =
       [LogConflict 2, LogConflict 1, LogSaveFailed 409]
   \<and> github_calls (snd (saveBackupToGitHub [record1] world_conflict)) =
       [GetContent, PutContent None, GetContent, PutContent (Some 0),
        GetContent, PutContent (Some 0)]
   \<and> timeouts (snd (saveBackupToGitHub [record1] world_conflict)) = [1000, 1000]"
  using saveBackupToGitHub_bounded_retry_logs_failure [of "[record1]" world_conflict]
  by (simp add: handler_defs world_conflict_def world1_def numeral_3_eq_3)

text \<open>The claim as the specification words it fails: after three conflicts the caller
  is told nothing. The call returns, the record is not in the file, and only the
  console has the error.\<close>

theorem saveBackupToGitHub_failure_not_reported:
  "fst (saveBackupToGitHub [record1] world_conflict) = Returns
   \<and> fst (saveBackupToGitHub [record1] world_conflict) \<noteq> Throws 409
   \<and> map_option fst (github_file (snd (saveBackupToGitHub [record1] world_conflict))) = Some []
   \<and> last (console (snd (saveBackupToGitHub [record1] world_conflict))) = LogSaveFailed 409"
  by (simp add: handler_defs world_conflict_def world1_def numeral_3_eq_3)

section \<open>Properties of the completion tracker\<close>

subsection \<open>The transfer\<close>

lemma transfer_memory:
  "submissions (snd (transferJotformFilesToGoogleDrive s d w)) = submissions w"
  "tokenToUserId (snd (transferJotformFilesToGoogleDrive s d w)) = tokenToUserId w"
  "github_file (snd (transferJotformFilesToGoogleDrive s d w)) = github_file w"
  "channel (snd (transferJotformFilesToGoogleDrive s d w)) = channel w"
  "processingConfirmations (snd (transferJotformFilesToGoogleDrive s d w)) =
     processingConfirmations w"
  by (simp_all add: transferJotformFilesToGoogleDrive_def Let_def split: option.split)

text \<open>The first early return of the transfer: an id that is already in
  \<^verbatim>\<open>processedSubmissions\<close> is not transferred; the files of the draft are handed back,
  and a draft without files gives the empty array.\<close>

lemma transfer_of_marked:
  assumes "submissionId \<in> processedSubmissions w" and "\<not> has_files d"
  shows "transferJotformFilesToGoogleDrive submissionId d w =
           ([], w\<lparr>processingSubmissions := processingSubmissions w - {submissionId}\<rparr>)"
  using assms
  by (auto simp add: transferJotformFilesToGoogleDrive_def has_files_def Let_def
      split: option.splits)

lemma transfer_nothing:
  assumes "fst (transferJotformFilesToGoogleDrive s d w) = []"
    and "s \<notin> processedSubmissions w" and "\<not> has_files d"
  shows "snd (transferJotformFilesToGoogleDrive s d w) =
           w\<lparr>processingSubmissions := processingSubmissions w - {s}\<rparr>"
  using assms
  by (auto simp add: transferJotformFilesToGoogleDrive_def has_files_def Let_def
      split: option.splits if_splits)

subsection \<open>The webhook\<close>

lemma find_session_Matched:
  assumes "find_session tok w = Matched uid d"
  shows "tok \<noteq> [] \<and> \<not> has_files d \<and> submissions w uid = Some d \<and> sessionToken d = Some tok"
  using assms
  by (auto simp add: find_session_def split: if_splits option.splits)

lemma mark_claimed_memory:
  "submissions (mark_claimed r w) = submissions w"
  "tokenToUserId (mark_claimed r w) = tokenToUserId w"
  by (simp_all add: mark_claimed_def)

lemma find_session_mark_claimed:
  "find_session tok (mark_claimed r w) = find_session tok w"
  unfolding find_session_def mark_claimed_memory by (rule refl)

text \<open>An event that passes the guards and finds its draft: the handler has just put
  the id into \<^verbatim>\<open>processedSubmissions\<close>, so the transfer it calls returns at once with no
  file, the handler takes its marks back, and the world is what it was.\<close>

lemma webhook_matched:
  assumes g: "passes_guards r w"
    and m: "find_session (request_token r) (mark_claimed r w) = Matched uid d"
  shows "webhook_jotform r w = (Response 200 ''Webhook processed'', w)"
proof -
  let ?sid = "submissionID r" and ?tok = "request_token r"
  from find_session_Matched [OF m] have tok: "?tok \<noteq> []" and nf: "\<not> has_files d" by simp_all
  have marked: "?sid \<in> processedSubmissions (mark_claimed r w)"
    by (simp add: mark_claimed_def)
  from g tok have fresh: "?sid \<notin> processedSubmissions w" "?sid \<notin> processingSubmissions w"
    "?tok \<notin> processedTokens w"
    by (simp_all add: passes_guards_def)
  have sets: "insert ?sid (processedSubmissions w) - {?sid} = processedSubmissions w"
    "insert ?sid (processingSubmissions w) - {?sid} = processingSubmissions w"
    "insert ?tok (processedTokens w) - {?tok} = processedTokens w"
    using fresh by auto
  show ?thesis
    using fresh tok m sets
    by (simp add: webhook_jotform_def Let_def transfer_of_marked [OF marked nf])
       (simp add: mark_claimed_def)
qed

text \<open>An event that passes the guards and finds no draft: the id stays in
  \<^verbatim>\<open>processedSubmissions\<close>, because lines 3982 and 3983 both delete from
  \<^verbatim>\<open>processingSubmissions\<close>.\<close>

lemma webhook_unmatched:
  assumes g: "passes_guards r w"
    and m: "find_session (request_token r) (mark_claimed r w) = NoMatch"
  shows "webhook_jotform r w =
           (Response 200 ''Webhook processed'',
            w\<lparr>processedSubmissions := insert (submissionID r) (processedSubmissions w)\<rparr>)"
proof -
  let ?sid = "submissionID r" and ?tok = "request_token r"
  from g have fresh: "?sid \<notin> processedSubmissions w" "?sid \<notin> processingSubmissions w"
    "?tok \<noteq> [] \<longrightarrow> ?tok \<notin> processedTokens w"
    by (auto simp add: passes_guards_def)
  have sets: "insert ?sid (processingSubmissions w) - {?sid} = processingSubmissions w"
    "?tok \<noteq> [] \<longrightarrow> insert ?tok (processedTokens w) - {?tok} = processedTokens w"
    using fresh by auto
  show ?thesis
    using fresh m sets
    by (simp add: webhook_jotform_def Let_def) (simp add: mark_claimed_def)
qed

text \<open>No invocation of the webhook handler, on any event and in any state, writes to
  the backup file, sends a notification, or touches a draft or the token map.\<close>

lemma webhook_jotform_never_persists:
  "github_file (snd (webhook_jotform r w)) = github_file w
   \<and> channel (snd (webhook_jotform r w)) = channel w
   \<and> submissions (snd (webhook_jotform r w)) = submissions w
   \<and> tokenToUserId (snd (webhook_jotform r w)) = tokenToUserId w"
proof (cases "passes_guards r w")
  case False
  then show ?thesis
    by (auto simp add: webhook_jotform_def passes_guards_def Let_def)
next
  case True
  show ?thesis
  proof (cases "find_session (request_token r) (mark_claimed r w)")
    case (Matched uid d)
    from webhook_matched [OF True Matched] show ?thesis by simp
  next
    case AlreadyHasFiles
    with True show ?thesis
      by (simp add: webhook_jotform_def passes_guards_def Let_def) (simp add: mark_claimed_def)
  next
    case NoMatch
    from webhook_unmatched [OF True NoMatch] show ?thesis by simp
  qed
qed

subsection \<open>The manual poll\<close>

lemma check_for_token_reads_jotform:
  "checkForTokenBasedJotformSubmissions f d (w\<lparr>processingConfirmations := c\<rparr>) =
   checkForTokenBasedJotformSubmissions f d w"
  by (simp add: checkForTokenBasedJotformSubmissions_def)

lemma load_memory:
  "tokenToUserId (snd (loadBackupFromGitHub w)) = tokenToUserId w"
  by (simp add: loadBackupFromGitHub_def split: option.split)

lemma notify_memory:
  "tokenToUserId (sendSubmissionNotification d s w) = tokenToUserId w"
  by (simp add: sendSubmissionNotification_def Let_def split: option.split)

lemma persist_and_notify_token_map:
  "tokenToUserId (snd (persist_and_notify uid d s files w)) = tokenToUserId w"
  by (simp add: persist_and_notify_def Let_def case_prod_beta notify_memory save_memory
      load_memory)

text \<open>The poll handler never changes the token map, whatever it finds.\<close>

lemma check_upload_status_token_map:
  "tokenToUserId (snd (check_upload_status uid w)) = tokenToUserId w"
  by (simp add: check_upload_status_def Let_def case_prod_beta transfer_memory
      persist_and_notify_token_map split: option.split)

text \<open>A poll that ends with no file transferred leaves the world as it was, except
  that the id it tried is no longer in \<^verbatim>\<open>processingSubmissions\<close>.\<close>

lemma check_upload_status_failed:
  assumes "fst (check_upload_status uid w) = UploadFailed"
  shows "\<exists>data formId s. submissions w uid = Some data \<and> jotform data = Some formId
           \<and> checkForTokenBasedJotformSubmissions formId data w = Some s
           \<and> s \<notin> processedSubmissions w
           \<and> snd (check_upload_status uid w) =
               w\<lparr>processingSubmissions := processingSubmissions w - {s}\<rparr>"
proof -
  from assms obtain data where d: "submissions w uid = Some data"
    by (cases "submissions w uid") (simp_all add: check_upload_status_def)
  from assms d obtain formId where f: "jotform data = Some formId"
    by (cases "jotform data") (simp_all add: check_upload_status_def)
  let ?key = "''status_check_'' @ uid"
  let ?w1 = "w\<lparr>processingConfirmations := insert ?key (processingConfirmations w)\<rparr>"
  from assms d f have k: "?key \<notin> processingConfirmations w"
    by (auto simp add: check_upload_status_def Let_def)
  from assms d f k have nf: "\<not> has_files data"
    by (auto simp add: check_upload_status_def Let_def split: if_splits)
  from assms d f k nf obtain s where
    s: "checkForTokenBasedJotformSubmissions formId data w = Some s"
    by (cases "checkForTokenBasedJotformSubmissions formId data w")
       (auto simp add: check_upload_status_def Let_def check_for_token_reads_jotform
        split: if_splits)
  from assms d f k nf s have np: "s \<notin> processedSubmissions w"
    by (auto simp add: check_upload_status_def Let_def check_for_token_reads_jotform
        split: if_splits)
  from assms d f k nf s np have z: "fst (transferJotformFilesToGoogleDrive s data ?w1) = []"
    by (auto simp add: check_upload_status_def Let_def check_for_token_reads_jotform
        split: if_splits prod.splits)
  have t: "snd (transferJotformFilesToGoogleDrive s data ?w1) =
             ?w1\<lparr>processingSubmissions := processingSubmissions ?w1 - {s}\<rparr>"
    using z np nf by (intro transfer_nothing) simp_all
  have c: "insert ?key (processingConfirmations w) - {?key} = processingConfirmations w"
    using k by auto
  have "snd (check_upload_status uid w) =
          w\<lparr>processingSubmissions := processingSubmissions w - {s}\<rparr>"
    using assms d f k nf s np z t c
    by (auto simp add: check_upload_status_def Let_def check_for_token_reads_jotform
        split: if_splits prod.splits)
  with d f s np show ?thesis by blast
qed

subsection \<open>The claims about the tracker\<close>

text \<open>
  \<^bold>\<open>C1\<close>. The webhook fires twice for the submission \<^verbatim>\<open>s1\<close>, whose token leads to a
  waiting draft and whose file is ready (the manual poll in the same state transfers
  it and completes). The claim asks for exactly one record and one notification. The
  code gives none: each invocation answers \<^verbatim>\<open>Webhook processed\<close> and leaves the world as
  it found it, so the backup file does not exist, the channel is silent, and the second
  invocation is not stopped by the sets.
\<close>

theorem webhook_twice_persists_nothing:
  "webhook_jotform request1 world1 = (Response 200 ''Webhook processed'', world1)
   \<and> webhook_jotform request1 (snd (webhook_jotform request1 world1)) =
       (Response 200 ''Webhook processed'', world1)
   \<and> github_file world1 = None \<and> channel world1 = Some []
   \<and> submissionID request1 \<notin> processedSubmissions (snd (webhook_jotform request1 world1))
   \<and> fst (check_upload_status ''u1'' world1) = UploadCompleted"
proof -
  have g: "passes_guards request1 world1"
    by (simp add: handler_defs session_defs)
  have m: "find_session (request_token request1) (mark_claimed request1 world1) =
             Matched ''u1'' draft1"
    by (simp add: handler_defs session_defs)
  have poll: "fst (check_upload_status ''u1'' world1) = UploadCompleted"
    by (simp add: handler_defs session_defs numeral_3_eq_3)
  have once: "webhook_jotform request1 world1 = (Response 200 ''Webhook processed'', world1)"
    by (rule webhook_matched [OF g m])
  show ?thesis
    using once poll by (simp add: world1_def request1_def)
qed

text \<open>
  \<^bold>\<open>C2\<close>. The manual poll completes the submission of user \<^verbatim>\<open>u1\<close>: one file is
  transferred, one record is written, the draft is removed. The claim asks for the
  token to be gone from \<^verbatim>\<open>tokenToUserId\<close> as on the webhook path (line 3951). The poll
  path has no such line: the token still maps to the user.
\<close>

theorem poll_success_keeps_token:
  "fst (check_upload_status ''u1'' world1) = UploadCompleted
   \<and> map_option (map record_files \<circ> fst) (github_file (snd (check_upload_status ''u1'' world1)))
       = Some [[file1]]
   \<and> submissions (snd (check_upload_status ''u1'' world1)) ''u1'' = None
   \<and> tokenToUserId (snd (check_upload_status ''u1'' world1)) ''tok1'' = Some ''u1''"
  by (simp add: handler_defs session_defs numeral_3_eq_3)

text \<open>
  \<^bold>\<open>C3\<close>. A claimed attempt that transfers no file. On the webhook path: the event
  passed the guards, its token found a draft, and the transfer returned no file. On
  the poll path: the poll found the submission \<open>s\<close> of the user's form and ended with
  \<^verbatim>\<open>File Upload Failed\<close>. In both cases the backup file is untouched, every draft
  (so also its status) is as before, the token map is as before, and the submission id
  is in neither \<^verbatim>\<open>processedSubmissions\<close> nor \<^verbatim>\<open>processingSubmissions\<close>.
\<close>

theorem zero_files_releases_claim:
  "(passes_guards r w
    \<and> find_session (request_token r) (mark_claimed r w) = Matched u d
    \<and> fst (transferJotformFilesToGoogleDrive (submissionID r) d (mark_claimed r w)) = []
    \<longrightarrow> github_file (snd (webhook_jotform r w)) = github_file w
        \<and> submissions (snd (webhook_jotform r w)) = submissions w
        \<and> tokenToUserId (snd (webhook_jotform r w)) = tokenToUserId w
        \<and> submissionID r \<notin> processedSubmissions (snd (webhook_jotform r w))
        \<and> submissionID r \<notin> processingSubmissions (snd (webhook_jotform r w)))
   \<and> (submissions v uid = Some data \<and> jotform data = Some formId
      \<and> checkForTokenBasedJotformSubmissions formId data v = Some s
      \<and> fst (check_upload_status uid v) = UploadFailed
      \<longrightarrow> github_file (snd (check_upload_status uid v)) = github_file v
          \<and> submissions (snd (check_upload_status uid v)) = submissions v
          \<and> tokenToUserId (snd (check_upload_status uid v)) = tokenToUserId v
          \<and> s \<notin> processedSubmissions (snd (check_upload_status uid v))
          \<and> s \<notin> processingSubmissions (snd (check_upload_status uid v)))"
proof (intro conjI impI)
  assume a: "passes_guards r w
    \<and> find_session (request_token r) (mark_claimed r w) = Matched u d
    \<and> fst (transferJotformFilesToGoogleDrive (submissionID r) d (mark_claimed r w)) = []"
  then have same: "snd (webhook_jotform r w) = w"
    using webhook_matched [of r w u d] by simp
  from a have fresh: "submissionID r \<notin> processedSubmissions w"
    "submissionID r \<notin> processingSubmissions w"
    by (simp_all add: passes_guards_def)
  show "github_file (snd (webhook_jotform r w)) = github_file w"
    "submissions (snd (webhook_jotform r w)) = submissions w"
    "tokenToUserId (snd (webhook_jotform r w)) = tokenToUserId w"
    "submissionID r \<notin> processedSubmissions (snd (webhook_jotform r w))"
    "submissionID r \<notin> processingSubmissions (snd (webhook_jotform r w))"
    using same fresh by simp_all
next
  assume b: "submissions v uid = Some data \<and> jotform data = Some formId
      \<and> checkForTokenBasedJotformSubmissions formId data v = Some s
      \<and> fst (check_upload_status uid v) = UploadFailed"
  then obtain s' where s': "checkForTokenBasedJotformSubmissions formId data v = Some s'"
    "s' \<notin> processedSubmissions v"
    "snd (check_upload_status uid v) =
       v\<lparr>processingSubmissions := processingSubmissions v - {s'}\<rparr>"
    using check_upload_status_failed [of uid v] by auto
  with b have eq: "s' = s" by simp
  show "github_file (snd (check_upload_status uid v)) = github_file v"
    "submissions (snd (check_upload_status uid v)) = submissions v"
    "tokenToUserId (snd (check_upload_status uid v)) = tokenToUserId v"
    "s \<notin> processedSubmissions (snd (check_upload_status uid v))"
    "s \<notin> processingSubmissions (snd (check_upload_status uid v))"
    using s' eq by simp_all
qed

theorem zero_files_releases_claim_witness:
  "passes_guards request1 world1
   \<and> find_session (request_token request1) (mark_claimed request1 world1) = Matched ''u1'' draft1
   \<and> fst (transferJotformFilesToGoogleDrive (submissionID request1) draft1
            (mark_claimed request1 world1)) = []
   \<and> github_file (snd (webhook_jotform request1 world1)) = None
   \<and> map_option status (submissions (snd (webhook_jotform request1 world1)) ''u1'') =
       Some ''awaiting_form_completion''
   \<and> tokenToUserId (snd (webhook_jotform request1 world1)) ''tok1'' = Some ''u1''
   \<and> ''s1'' \<notin> processedSubmissions (snd (webhook_jotform request1 world1))
   \<and> ''s1'' \<notin> processingSubmissions (snd (webhook_jotform request1 world1))
   \<and> submissions world_drive_down ''u1'' = Some draft1 \<and> jotform draft1 = Some ''f1''
   \<and> checkForTokenBasedJotformSubmissions ''f1'' draft1 world_drive_down = Some ''s1''
   \<and> fst (check_upload_status ''u1'' world_drive_down) = UploadFailed
   \<and> github_file (snd (check_upload_status ''u1'' world_drive_down)) = None
   \<and> map_option status (submissions (snd (check_upload_status ''u1'' world_drive_down)) ''u1'') =
       Some ''awaiting_form_completion''
   \<and> tokenToUserId (snd (check_upload_status ''u1'' world_drive_down)) ''tok1'' = Some ''u1''
   \<and> ''s1'' \<notin> processedSubmissions (snd (check_upload_status ''u1'' world_drive_down))
   \<and> ''s1'' \<notin> processingSubmissions (snd (check_upload_status ''u1'' world_drive_down))"
proof -
  have h1: "passes_guards request1 world1
     \<and> find_session (request_token request1) (mark_claimed request1 world1) = Matched ''u1'' draft1
     \<and> fst (transferJotformFilesToGoogleDrive (submissionID request1) draft1
              (mark_claimed request1 world1)) = []"
    by (simp add: handler_defs session_defs)
  have h2: "submissions world_drive_down ''u1'' = Some draft1 \<and> jotform draft1 = Some ''f1''
     \<and> checkForTokenBasedJotformSubmissions ''f1'' draft1 world_drive_down = Some ''s1''
     \<and> fst (check_upload_status ''u1'' world_drive_down) = UploadFailed"
    by (simp add: handler_defs session_defs world_drive_down_def)
  have w: "github_file world1 = None" "submissions world1 ''u1'' = Some draft1"
    "tokenToUserId world1 ''tok1'' = Some ''u1''" "submissionID request1 = ''s1''"
    "github_file world_drive_down = None" "tokenToUserId world_drive_down ''tok1'' = Some ''u1''"
    "status draft1 = ''awaiting_form_completion''"
    by (simp_all add: session_defs world_drive_down_def)
  show ?thesis
    using h1 h2 w
      zero_files_releases_claim [of request1 world1 "''u1''" draft1 world_drive_down "''u1''"
        draft1 "''f1''" "''s1''"]
    by simp
qed

text \<open>
  \<^bold>\<open>C4\<close>. An event without a token, and an event with a token that is not in the
  token map, both on a world whose three deduplication sets are empty. No file is
  transferred, no record is written and nobody is notified, and
  \<^verbatim>\<open>processingSubmissions\<close> and \<^verbatim>\<open>processedTokens\<close> are as before; but the claim also
  asks for \<^verbatim>\<open>processedSubmissions\<close> to be unchanged, and the id of the ignored event
  stays in it.
\<close>

theorem unmatched_event_stays_marked_processed:
  "processedSubmissions world1 = {}
   \<and> processedSubmissions (snd (webhook_jotform request_no_token world1)) = {''s9''}
   \<and> processedSubmissions (snd (webhook_jotform request_unknown_token world1)) = {''s9''}
   \<and> processingSubmissions (snd (webhook_jotform request_no_token world1)) = {}
   \<and> processedTokens (snd (webhook_jotform request_unknown_token world1)) = {}
   \<and> github_file (snd (webhook_jotform request_no_token world1)) = None
   \<and> channel (snd (webhook_jotform request_unknown_token world1)) = Some []
   \<and> fst (webhook_jotform request_no_token (snd (webhook_jotform request_no_token world1))) =
       Response 200 ''Already processed''"
  by (simp add: handler_defs session_defs request_no_token_def request_unknown_token_def)

section \<open>Properties of the commission calculator\<close>

lemma calculateCommissions_map:
  "calculateCommissions p r agents =
     map (\<lambda>agent. agent(''commission'' \<mapsto> JStr (toFixed2
            (js_div (js_mul (js_div (js_mul
                 (parseFloat_string (filter (\<lambda>c. c \<noteq> CHR '','') (to_string p)))
                 (parseFloat r)) js_100)
               (agentPercentage agent)) js_100)))) agents"
  by (simp add: calculateCommissions_def Let_def)

subsection \<open>The layout and the rounding of \<^verbatim>\<open>toFixed(2)\<close>\<close>

lemma show_int_small: "0 \<le> n \<Longrightarrow> n < 10 \<Longrightarrow> show_int n = [''0123456789'' ! nat n]"
  by (simp add: show_int.simps)

lemma show_int_step:
  "10 \<le> n \<Longrightarrow> show_int n = show_int (n div 10) @ [''0123456789'' ! nat (n mod 10)]"
  by (subst show_int.simps) simp

lemma show_int_length: "0 \<le> n \<Longrightarrow> 0 < length (show_int n)"
  by (cases "n < 10") (simp_all add: show_int_small show_int_step)

text \<open>\<open>n\<close> hundredths print as the digits of \<open>n div 100\<close>, the point, and the two
  digits of \<open>n mod 100\<close>.\<close>

lemma fixed2_layout:
  assumes "0 \<le> n"
  shows "fixed2 n = show_int (n div 100) @ ''.''
           @ [''0123456789'' ! nat (n div 10 mod 10), ''0123456789'' ! nat (n mod 10)]"
proof -
  consider "n < 10" | "10 \<le> n" "n < 100" | "100 \<le> n" by linarith
  then show ?thesis
  proof cases
    case 1
    with assms have "show_int n = [''0123456789'' ! nat n]" "n div 100 = 0" "n div 10 = 0"
      "n mod 10 = n"
      by (simp_all add: show_int_small)
    then show ?thesis
      by (simp add: fixed2_def Let_def show_int_small numeral_2_eq_2)
  next
    case 2
    then have a: "n div 10 < 10" "0 \<le> n div 10" "n div 100 = 0" "n div 10 mod 10 = n div 10"
      by simp_all
    from 2 have "show_int n = [''0123456789'' ! nat (n div 10), ''0123456789'' ! nat (n mod 10)]"
      using a by (simp add: show_int_step show_int_small)
    then show ?thesis
      using a by (simp add: fixed2_def Let_def show_int_small)
  next
    case 3
    then have b: "10 \<le> n div 10" "10 \<le> n" by simp_all
    have d: "n div 10 div 10 = n div 100" by (simp add: zdiv_zmult2_eq)
    have "show_int n = show_int (n div 100)
            @ [''0123456789'' ! nat (n div 10 mod 10), ''0123456789'' ! nat (n mod 10)]"
      using b d by (simp add: show_int_step)
    moreover have "0 < length (show_int (n div 100))"
      using 3 by (intro show_int_length) simp
    ultimately show ?thesis
      by (simp add: fixed2_def Let_def Suc_le_eq)
  qed
qed

text \<open>\<open>\<lfloor>x / d + 1/2\<rfloor>\<close> is within one half of \<open>x / d\<close>.\<close>

lemma nearest_hundredth:
  fixes x d :: int
  assumes "0 < d"
  shows "\<bar>2 * x - 2 * ((2 * x + d) div (2 * d)) * d\<bar> \<le> d"
proof -
  let ?n = "(2 * x + d) div (2 * d)"
  have "2 * x + d = 2 * d * ?n + (2 * x + d) mod (2 * d)"
    by simp
  moreover have "0 \<le> (2 * x + d) mod (2 * d)" "(2 * x + d) mod (2 * d) < 2 * d"
    using assms by simp_all
  ultimately show ?thesis by (simp add: abs_le_iff algebra_simps)
qed

lemma toFixed2_argument:
  fixes m :: int
  shows "(\<bar>m\<bar> * 2 ^ nat e * 200 + 2 ^ nat (- e)) div (2 * 2 ^ nat (- e))
     = (2 * (100 * \<bar>m\<bar> * 2 ^ nat e) + 2 ^ nat (- e)) div (2 * 2 ^ nat (- e))"
proof -
  have "\<bar>m\<bar> * 2 ^ nat e * 200 = 2 * (100 * \<bar>m\<bar> * 2 ^ nat e)" by simp
  then show ?thesis by (simp only:)
qed

lemma toFixed2_hundredths_nonneg:
  fixes m :: int
  shows "0 \<le> (2 * (100 * \<bar>m\<bar> * 2 ^ nat e) + 2 ^ nat (- e)) div (2 * 2 ^ nat (- e))"
  by (rule pos_imp_zdiv_nonneg_iff [THEN iffD2]) simp_all

text \<open>Below \<open>10 ^ 21\<close> the result of \<^verbatim>\<open>toFixed(2)\<close> is a sign, an integer part, the
  point and two digits; the number of hundredths it shows is within one half of one
  hundred times the magnitude.\<close>

lemma toFixed2_below_1e21:
  assumes "\<bar>m\<bar> * 2 ^ nat e < 10 ^ 21 * 2 ^ nat (- e)"
  shows "\<exists>n\<ge>0. toFixed2 (Fin m e) =
            (if m < 0 then ''-'' else []) @ show_int (n div 100) @ ''.''
              @ [''0123456789'' ! nat (n div 10 mod 10), ''0123456789'' ! nat (n mod 10)]
          \<and> \<bar>2 * (100 * \<bar>m\<bar> * 2 ^ nat e) - 2 * n * 2 ^ nat (- e)\<bar> \<le> 2 ^ nat (- e)"
proof -
  let ?d = "(2::int) ^ nat (- e)"
  let ?x = "100 * \<bar>m\<bar> * 2 ^ nat e"
  let ?n = "(2 * ?x + ?d) div (2 * ?d)"
  have d: "0 < ?d" by simp
  from assms have small: "\<not> 10 ^ 21 * 2 ^ nat (- e) \<le> \<bar>m\<bar> * 2 ^ nat e"
    by (simp only: not_le)
  have t: "toFixed2 (Fin m e) = (if m < 0 then ''-'' else []) @ fixed2 ?n"
    unfolding toFixed2.simps toFixed2_argument using small by (simp only: if_False)
  have l: "fixed2 ?n = show_int (?n div 100) @ ''.''
              @ [''0123456789'' ! nat (?n div 10 mod 10), ''0123456789'' ! nat (?n mod 10)]"
    by (rule fixed2_layout [OF toFixed2_hundredths_nonneg])
  have b: "\<bar>2 * ?x - 2 * ?n * ?d\<bar> \<le> ?d"
    by (rule nearest_hundredth [OF d])
  show ?thesis
    apply (rule exI [of _ ?n])
    apply (intro conjI)
      apply (rule toFixed2_hundredths_nonneg)
     apply (simp only: t l)
    apply (rule b)
    done
qed

subsection \<open>The accuracy of the binary64 operations\<close>

text \<open>
  A multiplication or a division whose result is in the normal range returns a value
  within \<open>2 ^ (- 53)\<close> of its own magnitude of the exact product or quotient. The
  proof follows \<open>round_ratio\<close>: \<open>bitlen\<close> brackets its argument between two powers
  of two, so the exponent \<open>e\<close> is not above the binary exponent of the quotient and the
  significand has 53 bits; the remainder decides between the two neighbours, so the
  result is within half a unit of the last place.
\<close>

lemma bitlen_bounds:
  "0 < n \<Longrightarrow> 0 < bitlen n \<and> 2 ^ nat (bitlen n - 1) \<le> n \<and> n < 2 ^ nat (bitlen n)"
proof (induction n rule: bitlen.induct)
  case (1 n)
  show ?case
  proof (cases "n = 1")
    case True
    have "bitlen 1 = 1" by (simp add: bitlen.simps)
    with True show ?thesis by simp
  next
    case False
    with 1 have h: "0 < n div 2" by simp
    from 1(1) [OF _ h] 1(2)
    have ih: "0 < bitlen (n div 2)" "2 ^ nat (bitlen (n div 2) - 1) \<le> n div 2"
      "n div 2 < 2 ^ nat (bitlen (n div 2))" by simp_all
    from 1(2) have b: "bitlen n = 1 + bitlen (n div 2)" by (subst bitlen.simps) simp
    have n1: "nat (bitlen n) = Suc (nat (bitlen (n div 2)))" using b ih(1) by simp
    have n2: "nat (bitlen n - 1) = Suc (nat (bitlen (n div 2) - 1))" using b ih(1) by simp
    show ?thesis using ih b unfolding n1 n2 by simp linarith
  qed
qed

lemma pow_ratio: "(2::real) ^ nat d / 2 ^ nat (- d) = 2 powi d"
  by (cases "0 \<le> d") (simp_all add: power_int_def power_inverse field_simps)


lemma norm2_value:
  "norm2 m e = (m', e') \<Longrightarrow> real_of_int m' * 2 powi e' = real_of_int m * 2 powi e"
proof (induction m e rule: norm2.induct)
  case (1 m e)
  show ?case
  proof (cases "m = 0")
    case True
    with 1(2) show ?thesis by (simp add: norm2.simps)
  next
    case False
    show ?thesis
    proof (cases "even m")
      case True
      with False 1(2) have "norm2 (m div 2) (e + 1) = (m', e')" by (subst (asm) norm2.simps) simp
      from 1(1) [OF False True this]
      have "real_of_int m' * 2 powi e' = real_of_int (m div 2) * 2 powi (e + 1)" .
      also have "\<dots> = real_of_int (m div 2) * 2 * 2 powi e" by (simp add: power_int_add)
      also have "real_of_int (m div 2) * 2 = real_of_int m"
        using True by (metis dvd_div_mult_self of_int_mult of_int_numeral)
      finally show ?thesis .
    next
      case odd: False
      with False 1(2) show ?thesis by (subst (asm) norm2.simps) simp
    qed
  qed
qed

lemma exponent_below:
  fixes p q :: int
  assumes "0 < p" "0 < q"
  defines "d \<equiv> bitlen p - bitlen q"
  defines "e \<equiv> (if p * 2 ^ nat (- d) < q * 2 ^ nat d then d - 1 else d)"
  shows "2 powi e \<le> real_of_int p / real_of_int q"
proof (cases "p * 2 ^ nat (- d) < q * 2 ^ nat d")
  case False
  then have "q * 2 ^ nat d \<le> p * 2 ^ nat (- d)" by simp
  then have "real_of_int (q * 2 ^ nat d) \<le> real_of_int (p * 2 ^ nat (- d))" by (simp only: of_int_le_iff)
  then have "real_of_int q * 2 ^ nat d \<le> real_of_int p * 2 ^ nat (- d)" by simp
  then have "(2::real) ^ nat d / 2 ^ nat (- d) \<le> real_of_int p / real_of_int q"
    using assms(2) by (simp add: field_simps)
  with False show ?thesis by (simp add: e_def pow_ratio)
next
  case True
  from bitlen_bounds [OF assms(1)] have "2 ^ nat (bitlen p - 1) \<le> p" "0 < bitlen p" by simp_all
  then have "real_of_int (2 ^ nat (bitlen p - 1)) \<le> real_of_int p" by (simp only: of_int_le_iff)
  then have a: "2 powi (bitlen p - 1) \<le> real_of_int p" using \<open>0 < bitlen p\<close>
    by (simp add: power_int_def)
  from bitlen_bounds [OF assms(2)] have "q < 2 ^ nat (bitlen q)" "0 < bitlen q" by simp_all
  then have "real_of_int q < real_of_int (2 ^ nat (bitlen q))" by (simp only: of_int_less_iff)
  then have b: "real_of_int q \<le> 2 powi (bitlen q)" using \<open>0 < bitlen q\<close>
    by (simp add: power_int_def)
  have "(2::real) powi (d - 1) = 2 powi ((bitlen p - 1) - bitlen q)"
    by (simp add: d_def algebra_simps)
  also have "\<dots> = 2 powi (bitlen p - 1) / 2 powi (bitlen q)"
    by (rule power_int_diff) simp
  also have "\<dots> \<le> real_of_int p / real_of_int q"
    using a b assms by (intro frac_le) simp_all
  finally show ?thesis using True by (simp add: e_def)
qed


lemma scale_abs:
  fixes a b c :: real
  assumes "0 < c" "\<bar>a - b / c\<bar> \<le> 1 / 2"
  shows "\<bar>a * c - b\<bar> \<le> c / 2"
proof -
  have "a * c - b = (a - b / c) * c" using assms(1) by (simp add: field_simps)
  then have "\<bar>a * c - b\<bar> = \<bar>a - b / c\<bar> * c" using assms(1) by (simp add: abs_mult)
  also have "\<dots> \<le> 1 / 2 * c" using assms by (intro mult_right_mono) simp_all
  finally show ?thesis by simp
qed

lemma nearest_unit:
  fixes num den :: int
  assumes "0 < den"
  defines "f \<equiv> num div den" and "r \<equiv> num mod den"
  defines "m \<equiv> (if 2 * r < den then f else if den < 2 * r then f + 1
                 else if even f then f else f + 1)"
  shows "f \<le> m" and "\<bar>2 * (m * den - num)\<bar> \<le> den"
proof -
  have n: "num = den * f + r" by (simp add: f_def r_def)
  have r: "0 \<le> r" "r < den" using assms(1) by (simp_all add: r_def)
  show "f \<le> m" by (simp add: m_def)
  have "m = f \<and> 2 * r \<le> den \<or> m = f + 1 \<and> den \<le> 2 * r"
    by (simp add: m_def)
  then show "\<bar>2 * (m * den - num)\<bar> \<le> den"
    using r by (auto simp add: n algebra_simps abs_le_iff)
qed

lemma round_ratio_error:
  assumes rr: "round_ratio neg p q = Fin m e"
    and big: "2 powi (- 1022) \<le> \<bar>real_of_int m * 2 powi e\<bar>"
  shows "\<bar>real_of_int m * 2 powi e - (if neg then - 1 else 1) * (real_of_int p / real_of_int q)\<bar>
           \<le> \<bar>real_of_int m * 2 powi e\<bar> * 2 powi (- 53)"
proof -
  have pos: "0 < p" "0 < q"
  proof -
    have "\<not> (p \<le> 0 \<or> q \<le> 0)"
    proof
      assume "p \<le> 0 \<or> q \<le> 0"
      with rr have "m = 0" by (simp add: round_ratio_def)
      with big show False by simp
    qed
    then show "0 < p" "0 < q" by simp_all
  qed
  define d where "d = bitlen p - bitlen q"
  define e0 where "e0 = (if p * 2 ^ nat (- d) < q * 2 ^ nat d then d - 1 else d)"
  define sh where "sh = max e0 (- 1022) - 52"
  define num where "num = p * 2 ^ nat (- sh)"
  define den where "den = q * 2 ^ nat sh"
  define m0 where "m0 = (if 2 * (num mod den) < den then num div den
                         else if den < 2 * (num mod den) then num div den + 1
                         else if even (num div den) then num div den else num div den + 1)"
  have unf: "round_ratio neg p q =
      (if 1024 < sh + bitlen m0 then (if neg then NegInf else PosInf)
       else case norm2 m0 sh of (m', e') \<Rightarrow> Fin (if neg then - m' else m') e')"
    using pos unfolding round_ratio_def Let_def m0_def den_def num_def sh_def e0_def d_def
    by simp
  obtain m' e' where n2: "norm2 m0 sh = (m', e')" by (cases "norm2 m0 sh")
  from rr unf n2 have me: "m = (if neg then - m' else m')" "e = e'"
    by (simp_all split: if_splits)
  have den: "0 < den" using pos by (simp add: den_def)
  have num: "0 \<le> num" using pos by (simp add: num_def)
  from nearest_unit [OF den, of num]
  have fm: "num div den \<le> m0" and near: "\<bar>2 * (m0 * den - num)\<bar> \<le> den"
    unfolding m0_def by simp_all
  have f0: "0 \<le> num div den" using den num by (simp add: pos_imp_zdiv_nonneg_iff)
  with fm have m0: "0 \<le> m0" by simp
  have v: "real_of_int m * 2 powi e = (if neg then - 1 else 1) * (real_of_int m0 * 2 powi sh)"
    using norm2_value [OF n2] me by simp
  have av: "\<bar>real_of_int m * 2 powi e\<bar> = real_of_int m0 * 2 powi sh"
    using m0 by (simp add: v abs_mult)
  have ratio: "real_of_int num / real_of_int den
                 = (real_of_int p / real_of_int q) / 2 powi sh"
  proof -
    have "real_of_int num / real_of_int den
            = (real_of_int p / real_of_int q) / (2 ^ nat sh / 2 ^ nat (- sh))"
      by (simp add: num_def den_def)
    then show ?thesis by (simp only: pow_ratio)
  qed
  have "\<bar>2 * (real_of_int m0 * real_of_int den - real_of_int num)\<bar> \<le> real_of_int den"
    using near by (metis of_int_abs of_int_diff of_int_le_iff of_int_mult of_int_numeral)
  then have "\<bar>real_of_int m0 * real_of_int den - real_of_int num\<bar> \<le> real_of_int den / 2"
    by (simp only: abs_mult abs_numeral) simp
  then have "\<bar>real_of_int m0 * real_of_int den - real_of_int num\<bar> / real_of_int den
               \<le> (real_of_int den / 2) / real_of_int den"
    using den by (intro divide_right_mono) simp_all
  moreover have "real_of_int m0 - real_of_int num / real_of_int den
                   = (real_of_int m0 * real_of_int den - real_of_int num) / real_of_int den"
    using den by (simp add: field_simps)
  ultimately have "\<bar>real_of_int m0 - real_of_int num / real_of_int den\<bar> \<le> 1 / 2"
    using den by simp
  then have "\<bar>real_of_int m0 - (real_of_int p / real_of_int q) / 2 powi sh\<bar> \<le> 1 / 2"
    by (simp only: ratio)
  then have err: "\<bar>real_of_int m0 * 2 powi sh - real_of_int p / real_of_int q\<bar> \<le> 2 powi sh / 2"
    by (intro scale_abs) simp_all
  have m52: "2 ^ 52 \<le> real_of_int m0"
  proof (cases "- 1022 \<le> e0")
    case True
    then have sh: "sh = e0 - 52" by (simp add: sh_def)
    have "2 powi e0 \<le> real_of_int p / real_of_int q"
      unfolding e0_def d_def by (rule exponent_below [OF pos])
    then have "2 powi e0 / 2 powi sh \<le> (real_of_int p / real_of_int q) / 2 powi sh"
      by (intro divide_right_mono) simp_all
    moreover have "(2::real) powi e0 / 2 powi sh = 2 ^ 52"
      by (simp add: sh power_int_diff [symmetric])
    ultimately have "2 ^ 52 \<le> real_of_int num / real_of_int den" by (simp add: ratio)
    then have "2 ^ 52 * real_of_int den \<le> real_of_int num"
      using den by (simp add: field_simps)
    then have "2 ^ 52 * den \<le> num"
      by (metis of_int_le_iff of_int_mult of_int_numeral of_int_power)
    then have "(2 ^ 52 * den) div den \<le> num div den"
      using den by (intro zdiv_mono1)
    then have "2 ^ 52 \<le> num div den"
      using den by simp
    with fm have "2 ^ 52 \<le> m0" by simp
    then show ?thesis by (metis of_int_le_iff of_int_numeral of_int_power)
  next
    case False
    then have sh: "sh = - 1074" by (simp add: sh_def)
    from big have "2 powi (- 1022) \<le> real_of_int m0 * 2 powi (- 1074)"
      by (simp only: av sh)
    then have "2 powi (- 1022) / 2 powi (- 1074) \<le> real_of_int m0"
      by (simp add: field_simps)
    moreover have "(2::real) powi (- 1022) / 2 powi (- 1074) = 2 powi 52"
      by (subst power_int_diff [symmetric]) simp_all
    ultimately show ?thesis by simp
  qed
  have "(2::real) powi sh / 2 = 2 ^ 52 * 2 powi sh * 2 powi (- 53)"
  proof -
    have "(2::real) ^ 52 * 2 powi (- 53) = 2 powi (52 + (- 53))"
      by (subst power_int_add) simp_all
    then have "(2::real) ^ 52 * 2 powi (- 53) = 1 / 2" by (simp add: power_int_minus)
    then show ?thesis by (simp add: algebra_simps)
  qed
  also have "\<dots> \<le> real_of_int m0 * 2 powi sh * 2 powi (- 53)"
    using m52 by (intro mult_right_mono) simp_all
  finally have "2 powi sh / 2 \<le> \<bar>real_of_int m * 2 powi e\<bar> * 2 powi (- 53)"
    by (simp only: av)
  moreover have "\<bar>real_of_int m * 2 powi e
                   - (if neg then - 1 else 1) * (real_of_int p / real_of_int q)\<bar>
                 = \<bar>real_of_int m0 * 2 powi sh - real_of_int p / real_of_int q\<bar>"
    by (simp add: v abs_minus_commute)
  ultimately show ?thesis using err by simp
qed


lemma signed_magnitude:
  fixes k :: int and x :: real
  shows "(if k < 0 then - 1 else 1) * (\<bar>real_of_int k\<bar> * x) = real_of_int k * x"
  by (cases "k < 0") simp_all

lemma js_mul_error:
  assumes "normal_number (js_mul a b)"
  shows "\<bar>value_of (js_mul a b) - value_of a * value_of b\<bar>
           \<le> \<bar>value_of (js_mul a b)\<bar> * 2 powi (- 53)"
proof -
  from assms obtain m e where c: "js_mul a b = Fin m e"
    by (cases "js_mul a b") simp_all
  from c obtain m1 e1 m2 e2 where ab: "a = Fin m1 e1" "b = Fin m2 e2"
    by (cases a; cases b) (simp_all split: if_splits)
  from c ab have rr: "round_ratio (m1 * m2 < 0) (\<bar>m1 * m2\<bar> * 2 ^ nat (e1 + e2))
                        (2 ^ nat (- (e1 + e2))) = Fin m e"
    by (simp add: from_dyadic_def)
  from assms c have big: "2 powi (- 1022) \<le> \<bar>real_of_int m * 2 powi e\<bar>" by simp
  have "real_of_int (\<bar>m1 * m2\<bar> * 2 ^ nat (e1 + e2)) / real_of_int (2 ^ nat (- (e1 + e2)))
          = \<bar>real_of_int (m1 * m2)\<bar> * (2 ^ nat (e1 + e2) / 2 ^ nat (- (e1 + e2)))"
    by simp
  also have "\<dots> = \<bar>real_of_int (m1 * m2)\<bar> * 2 powi (e1 + e2)"
    by (simp only: pow_ratio)
  finally have q: "real_of_int (\<bar>m1 * m2\<bar> * 2 ^ nat (e1 + e2)) / real_of_int (2 ^ nat (- (e1 + e2)))
          = \<bar>real_of_int (m1 * m2)\<bar> * 2 powi (e1 + e2)" .
  have "(if m1 * m2 < 0 then - 1 else 1) * (\<bar>real_of_int (m1 * m2)\<bar> * 2 powi (e1 + e2))
          = real_of_int (m1 * m2) * 2 powi (e1 + e2)"
    by (rule signed_magnitude)
  also have "\<dots> = (real_of_int m1 * 2 powi e1) * (real_of_int m2 * 2 powi e2)"
    by (simp add: power_int_add)
  finally have s: "(if m1 * m2 < 0 then - 1 else 1) * (\<bar>real_of_int (m1 * m2)\<bar> * 2 powi (e1 + e2))
          = value_of a * value_of b" by (simp add: ab)
  from round_ratio_error [OF rr big] show ?thesis
    unfolding q s c by simp
qed

lemma js_div_error:
  assumes "normal_number (js_div a b)"
  shows "\<bar>value_of (js_div a b) - value_of a / value_of b\<bar>
           \<le> \<bar>value_of (js_div a b)\<bar> * 2 powi (- 53)"
proof -
  from assms obtain m e where c: "js_div a b = Fin m e"
    by (cases "js_div a b") simp_all
  from assms c have big: "2 powi (- 1022) \<le> \<bar>real_of_int m * 2 powi e\<bar>" by simp
  then have m: "m \<noteq> 0" by auto
  from c m obtain m1 e1 m2 e2 where ab: "a = Fin m1 e1" "b = Fin m2 e2"
    by (cases a; cases b) (simp_all split: if_splits)
  from c ab have m2: "m2 \<noteq> 0" by (auto split: if_splits)
  from c ab m2 have rr: "round_ratio ((m1 < 0) \<noteq> (m2 < 0))
                        (\<bar>m1\<bar> * 2 ^ nat (e1 - e2)) (\<bar>m2\<bar> * 2 ^ nat (e2 - e1)) = Fin m e"
    by simp
  have "real_of_int (\<bar>m1\<bar> * 2 ^ nat (e1 - e2)) / real_of_int (\<bar>m2\<bar> * 2 ^ nat (e2 - e1))
          = (\<bar>real_of_int m1\<bar> / \<bar>real_of_int m2\<bar>) * (2 ^ nat (e1 - e2) / 2 ^ nat (- (e1 - e2)))"
    by simp
  also have "\<dots> = (\<bar>real_of_int m1\<bar> / \<bar>real_of_int m2\<bar>) * 2 powi (e1 - e2)"
    by (simp only: pow_ratio)
  finally have q: "real_of_int (\<bar>m1\<bar> * 2 ^ nat (e1 - e2)) / real_of_int (\<bar>m2\<bar> * 2 ^ nat (e2 - e1))
          = (\<bar>real_of_int m1\<bar> / \<bar>real_of_int m2\<bar>) * 2 powi (e1 - e2)" .
  have "(if (m1 < 0) \<noteq> (m2 < 0) then - 1 else 1) * ((\<bar>real_of_int m1\<bar> / \<bar>real_of_int m2\<bar>) * 2 powi (e1 - e2))
          = (real_of_int m1 / real_of_int m2) * 2 powi (e1 - e2)"
    using m2 by (auto simp add: abs_if)
  also have "\<dots> = (real_of_int m1 * 2 powi e1) / (real_of_int m2 * 2 powi e2)"
    by (simp add: power_int_diff)
  finally have s: "(if (m1 < 0) \<noteq> (m2 < 0) then - 1 else 1) * ((\<bar>real_of_int m1\<bar> / \<bar>real_of_int m2\<bar>) * 2 powi (e1 - e2))
          = value_of a / value_of b" by (simp add: ab)
  from round_ratio_error [OF rr big] show ?thesis
    unfolding q s c by simp
qed

lemma close_scale:
  fixes t x t' k u d :: real
  assumes "\<bar>t - x\<bar> \<le> \<bar>t\<bar> * d" "\<bar>t' - t * k\<bar> \<le> \<bar>t'\<bar> * u" "0 \<le> d" "0 \<le> u"
  shows "\<bar>t' - x * k\<bar> \<le> \<bar>t'\<bar> * (u + d * (1 + u))"
proof -
  have "\<bar>t * k\<bar> \<le> \<bar>t'\<bar> + \<bar>t' - t * k\<bar>" by simp
  also have "\<dots> \<le> \<bar>t'\<bar> * (1 + u)" using assms(2) by (simp add: algebra_simps)
  finally have a: "\<bar>t * k\<bar> \<le> \<bar>t'\<bar> * (1 + u)" .
  have "\<bar>t * k - x * k\<bar> = \<bar>t - x\<bar> * \<bar>k\<bar>" by (simp add: abs_mult [symmetric] left_diff_distrib)
  also have "\<dots> \<le> \<bar>t\<bar> * d * \<bar>k\<bar>" using assms(1) by (intro mult_right_mono) simp_all
  also have "\<dots> = \<bar>t * k\<bar> * d" by (simp add: abs_mult)
  also have "\<dots> \<le> \<bar>t'\<bar> * (1 + u) * d" using a assms(3) by (intro mult_right_mono)
  finally have b: "\<bar>t * k - x * k\<bar> \<le> \<bar>t'\<bar> * (1 + u) * d" .
  have "\<bar>t' - x * k\<bar> \<le> \<bar>t' - t * k\<bar> + \<bar>t * k - x * k\<bar>" by simp
  also have "\<dots> \<le> \<bar>t'\<bar> * u + \<bar>t'\<bar> * (1 + u) * d" using assms(2) b by simp
  finally show ?thesis by (simp add: algebra_simps)
qed

lemma four_roundings:
  "(2::real) powi (- 53) + (2 powi (- 53) + (2 powi (- 53) + 2 powi (- 53) * (1 + 2 powi (- 53)))
       * (1 + 2 powi (- 53))) * (1 + 2 powi (- 53)) \<le> 5 * 2 powi (- 53)"
  by (simp add: power_int_minus)

lemma payout_error:
  assumes n1: "normal_number (js_mul n r)"
    and n2: "normal_number (js_div (js_mul n r) js_100)"
    and n3: "normal_number (js_mul (js_div (js_mul n r) js_100) s)"
    and n4: "normal_number (js_div (js_mul (js_div (js_mul n r) js_100) s) js_100)"
  shows "\<bar>value_of (js_div (js_mul (js_div (js_mul n r) js_100) s) js_100)
            - value_of n * value_of r / 100 * value_of s / 100\<bar>
         \<le> \<bar>value_of (js_div (js_mul (js_div (js_mul n r) js_100) s) js_100)\<bar>
             * (5 * 2 powi (- 53))"
proof -
  define u :: real where "u = 2 powi (- 53)"
  define t1 where "t1 = js_mul n r"
  define t2 where "t2 = js_div t1 js_100"
  define t3 where "t3 = js_mul t2 s"
  define c where "c = js_div t3 js_100"
  have u: "0 \<le> u" by (simp add: u_def)
  have h: "value_of js_100 = 100" by (simp add: js_100_def)
  have e1: "\<bar>value_of t1 - value_of n * value_of r\<bar> \<le> \<bar>value_of t1\<bar> * u"
    unfolding t1_def u_def by (rule js_mul_error [OF n1])
  have "\<bar>value_of t2 - value_of t1 / value_of js_100\<bar> \<le> \<bar>value_of t2\<bar> * u"
    unfolding t2_def t1_def u_def by (rule js_div_error [OF n2])
  then have e2: "\<bar>value_of t2 - value_of t1 * (1 / 100)\<bar> \<le> \<bar>value_of t2\<bar> * u"
    by (simp add: h)
  have e3: "\<bar>value_of t3 - value_of t2 * value_of s\<bar> \<le> \<bar>value_of t3\<bar> * u"
    unfolding t3_def t2_def t1_def u_def by (rule js_mul_error [OF n3])
  have "\<bar>value_of c - value_of t3 / value_of js_100\<bar> \<le> \<bar>value_of c\<bar> * u"
    unfolding c_def t3_def t2_def t1_def u_def by (rule js_div_error [OF n4])
  then have e4: "\<bar>value_of c - value_of t3 * (1 / 100)\<bar> \<le> \<bar>value_of c\<bar> * u"
    by (simp add: h)
  have d2: "\<bar>value_of t2 - value_of n * value_of r * (1 / 100)\<bar>
              \<le> \<bar>value_of t2\<bar> * (u + u * (1 + u))"
    by (rule close_scale [OF e1 e2 u u])
  have u2: "0 \<le> u + u * (1 + u)" using u by simp
  have d3: "\<bar>value_of t3 - value_of n * value_of r * (1 / 100) * value_of s\<bar>
              \<le> \<bar>value_of t3\<bar> * (u + (u + u * (1 + u)) * (1 + u))"
    by (rule close_scale [OF d2 e3 u2 u])
  have u3: "0 \<le> u + (u + u * (1 + u)) * (1 + u)" using u by simp
  have d4: "\<bar>value_of c - value_of n * value_of r * (1 / 100) * value_of s * (1 / 100)\<bar>
              \<le> \<bar>value_of c\<bar> * (u + (u + (u + u * (1 + u)) * (1 + u)) * (1 + u))"
    by (rule close_scale [OF d3 e4 u3 u])
  have "u + (u + (u + u * (1 + u)) * (1 + u)) * (1 + u) \<le> 5 * u"
    unfolding u_def by (rule four_roundings)
  then have "\<bar>value_of c\<bar> * (u + (u + (u + u * (1 + u)) * (1 + u)) * (1 + u))
               \<le> \<bar>value_of c\<bar> * (5 * u)"
    by (intro mult_left_mono) simp_all
  with d4 have "\<bar>value_of c - value_of n * value_of r * (1 / 100) * value_of s * (1 / 100)\<bar>
              \<le> \<bar>value_of c\<bar> * (5 * u)" by simp
  then show ?thesis
    unfolding c_def t3_def t2_def t1_def u_def by simp
qed

subsection \<open>The share of a participant and the payouts outside the fixed-point range\<close>

lemma share_fallback:
  "parseFloat (property a ''percentage'') = NaN
     \<or> parseFloat (property a ''percentage'') = Fin 0 z \<Longrightarrow> agentPercentage a = js_0"
  by (auto simp add: agentPercentage_def Let_def)

lemma share_parsed:
  "truthy (JNum (parseFloat (property a ''percentage'')))
     \<Longrightarrow> agentPercentage a = parseFloat (property a ''percentage'')"
  by (simp add: agentPercentage_def Let_def)

lemma zero_share_commission:
  "toFixed2 (js_div (js_mul (Fin k j) js_0) js_100) = ''0.00''"
proof -
  have "js_mul (Fin k j) js_0 = Fin 0 0"
    by (simp add: js_0_def from_dyadic_def round_ratio_def)
  moreover have "js_div (Fin 0 0) js_100 = Fin 0 0"
    by (simp add: js_100_def round_ratio_def)
  moreover have "toFixed2 (Fin 0 0) = ''0.00''"
    by code_simp
  ultimately show ?thesis by (simp only:)
qed

lemma toFixed2_from_1e21:
  "10 ^ 21 * 2 ^ nat (- e) \<le> \<bar>m\<bar> * 2 ^ nat e
     \<Longrightarrow> toFixed2 (Fin m e) = number_to_string (Fin m e)"
  by (simp only: toFixed2.simps if_True)

subsection \<open>The claims about the calculator\<close>

text \<open>
  \<^bold>\<open>C6\<close>, as the code has it. For every price string, rate string and list of
  participants, the commission of each participant is \<^verbatim>\<open>toFixed(2)\<close> of
  \<open>((nett * rate) / 100 * share) / 100\<close>, each operation being the binary64
  operation, \<open>nett\<close> the parsed price without its commas and \<open>rate\<close> the parsed rate.
  The share is the parsed \<^verbatim>\<open>percentage\<close>, or 0 when that is \<open>NaN\<close> or zero; the
  commission is then \<^verbatim>\<open>0.00\<close> whenever the total is finite. When each of the four operations returns
  a value of the normal range, the binary64 payout differs from the exact value of
  \<open>nett * rate / 100 * share / 100\<close> by at most \<open>5 * 2 ^ (- 53)\<close> of its own
  magnitude. For a finite payout of magnitude below \<open>10 ^ 21\<close> the string is a
  fixed-point decimal with two places, and the number of hundredths it shows is the
  integer nearest to one hundred times the binary64 payout. For a finite payout of
  magnitude \<open>10 ^ 21\<close> or more the string is the one \<^verbatim>\<open>String\<close> gives, \<^verbatim>\<open>1e+22\<close>
  for the price \<^verbatim>\<open>1e24\<close> at the rate \<^verbatim>\<open>1\<close> and the share 100, and for a payout
  that is not finite it is \<^verbatim>\<open>Infinity\<close>, \<^verbatim>\<open>-Infinity\<close> or \<^verbatim>\<open>NaN\<close>: the price
  \<^verbatim>\<open>1e308\<close> at the rate \<^verbatim>\<open>1000\<close> gives \<^verbatim>\<open>Infinity\<close>. For the price \<^verbatim>\<open>1,200,000\<close>, the
  rate \<^verbatim>\<open>3\<close> and the shares 60 and 40 the payouts are \<^verbatim>\<open>21600.00\<close> and \<^verbatim>\<open>14400.00\<close>.
\<close>

theorem commission_formula_in_double_arithmetic:
  "map (\<lambda>a. a ''commission'') (calculateCommissions (JStr p) (JStr r) agents) =
     map (\<lambda>a. Some (JStr (toFixed2
            (js_div (js_mul (js_div (js_mul
                 (parseFloat_string (filter (\<lambda>c. c \<noteq> CHR '','') p))
                 (parseFloat_string r)) js_100)
               (agentPercentage a)) js_100)))) agents
   \<and> (parseFloat (property a ''percentage'') = NaN
        \<or> parseFloat (property a ''percentage'') = Fin 0 z \<longrightarrow>
        agentPercentage a = js_0
        \<and> toFixed2 (js_div (js_mul (Fin k j) (agentPercentage a)) js_100) = ''0.00'')
   \<and> (truthy (JNum (parseFloat (property b ''percentage''))) \<longrightarrow>
        agentPercentage b = parseFloat (property b ''percentage''))
   \<and> (normal_number (js_mul nett rate)
        \<and> normal_number (js_div (js_mul nett rate) js_100)
        \<and> normal_number (js_mul (js_div (js_mul nett rate) js_100) share)
        \<and> normal_number (js_div (js_mul (js_div (js_mul nett rate) js_100) share) js_100) \<longrightarrow>
        \<bar>value_of (js_div (js_mul (js_div (js_mul nett rate) js_100) share) js_100)
            - value_of nett * value_of rate / 100 * value_of share / 100\<bar>
          \<le> \<bar>value_of (js_div (js_mul (js_div (js_mul nett rate) js_100) share) js_100)\<bar>
             * (5 * 2 powi (- 53)))
   \<and> (\<bar>m\<bar> * 2 ^ nat e < 10 ^ 21 * 2 ^ nat (- e) \<longrightarrow>
        (\<exists>n\<ge>0. toFixed2 (Fin m e) =
            (if m < 0 then ''-'' else []) @ show_int (n div 100) @ ''.''
              @ [''0123456789'' ! nat (n div 10 mod 10), ''0123456789'' ! nat (n mod 10)]
          \<and> \<bar>2 * (100 * \<bar>m\<bar> * 2 ^ nat e) - 2 * n * 2 ^ nat (- e)\<bar> \<le> 2 ^ nat (- e)))
   \<and> (10 ^ 21 * 2 ^ nat (- e') \<le> \<bar>m'\<bar> * 2 ^ nat e' \<longrightarrow>
        toFixed2 (Fin m' e') = number_to_string (Fin m' e'))
   \<and> toFixed2 PosInf = ''Infinity'' \<and> toFixed2 NegInf = ''-Infinity''
   \<and> toFixed2 NaN = ''NaN''
   \<and> map (\<lambda>a. a ''commission'')
         (calculateCommissions (JStr ''1e308'') (JStr ''1000'') [agent_A]) =
       [Some (JStr ''Infinity'')]
   \<and> map (\<lambda>a. a ''commission'')
         (calculateCommissions (JStr ''1e24'') (JStr ''1'') [participant ''A'' (JNum js_100)]) =
       [Some (JStr ''1e+22'')]
   \<and> map (\<lambda>a. a ''commission'')
         (calculateCommissions (JStr ''1,200,000'') (JStr ''3'') [agent_A, agent_B]) =
       [Some (JStr ''21600.00''), Some (JStr ''14400.00'')]"
proof (intro conjI impI)
  show "map (\<lambda>a. a ''commission'') (calculateCommissions (JStr p) (JStr r) agents) =
     map (\<lambda>a. Some (JStr (toFixed2
            (js_div (js_mul (js_div (js_mul
                 (parseFloat_string (filter (\<lambda>c. c \<noteq> CHR '','') p))
                 (parseFloat_string r)) js_100)
               (agentPercentage a)) js_100)))) agents"
    by (simp add: calculateCommissions_map parseFloat_def)
next
  assume "parseFloat (property a ''percentage'') = NaN
        \<or> parseFloat (property a ''percentage'') = Fin 0 z"
  then show s: "agentPercentage a = js_0" by (rule share_fallback)
  show "toFixed2 (js_div (js_mul (Fin k j) (agentPercentage a)) js_100) = ''0.00''"
    unfolding s by (rule zero_share_commission)
next
  assume "truthy (JNum (parseFloat (property b ''percentage'')))"
  then show "agentPercentage b = parseFloat (property b ''percentage'')"
    by (rule share_parsed)
next
  assume "normal_number (js_mul nett rate)
        \<and> normal_number (js_div (js_mul nett rate) js_100)
        \<and> normal_number (js_mul (js_div (js_mul nett rate) js_100) share)
        \<and> normal_number (js_div (js_mul (js_div (js_mul nett rate) js_100) share) js_100)"
  then have "normal_number (js_mul nett rate)"
    and "normal_number (js_div (js_mul nett rate) js_100)"
    and "normal_number (js_mul (js_div (js_mul nett rate) js_100) share)"
    and "normal_number (js_div (js_mul (js_div (js_mul nett rate) js_100) share) js_100)"
    by blast+
  then show "\<bar>value_of (js_div (js_mul (js_div (js_mul nett rate) js_100) share) js_100)
            - value_of nett * value_of rate / 100 * value_of share / 100\<bar>
          \<le> \<bar>value_of (js_div (js_mul (js_div (js_mul nett rate) js_100) share) js_100)\<bar>
             * (5 * 2 powi (- 53))"
    by (rule payout_error)
next
  assume "\<bar>m\<bar> * 2 ^ nat e < 10 ^ 21 * 2 ^ nat (- e)"
  then show "\<exists>n\<ge>0. toFixed2 (Fin m e) =
            (if m < 0 then ''-'' else []) @ show_int (n div 100) @ ''.''
              @ [''0123456789'' ! nat (n div 10 mod 10), ''0123456789'' ! nat (n mod 10)]
          \<and> \<bar>2 * (100 * \<bar>m\<bar> * 2 ^ nat e) - 2 * n * 2 ^ nat (- e)\<bar> \<le> 2 ^ nat (- e)"
    by (rule toFixed2_below_1e21)
next
  assume "10 ^ 21 * 2 ^ nat (- e') \<le> \<bar>m'\<bar> * 2 ^ nat e'"
  then show "toFixed2 (Fin m' e') = number_to_string (Fin m' e')"
    by (rule toFixed2_from_1e21)
next
  show "toFixed2 PosInf = ''Infinity''" by simp
  show "toFixed2 NegInf = ''-Infinity''" by simp
  show "toFixed2 NaN = ''NaN''" by simp
next
  show "map (\<lambda>a. a ''commission'')
         (calculateCommissions (JStr ''1e308'') (JStr ''1000'') [agent_A]) =
       [Some (JStr ''Infinity'')]"
    by code_simp
next
  show "map (\<lambda>a. a ''commission'')
         (calculateCommissions (JStr ''1e24'') (JStr ''1'') [participant ''A'' (JNum js_100)]) =
       [Some (JStr ''1e+22'')]"
    by code_simp
next
  show "map (\<lambda>a. a ''commission'')
         (calculateCommissions (JStr ''1,200,000'') (JStr ''3'') [agent_A, agent_B]) =
       [Some (JStr ''21600.00''), Some (JStr ''14400.00'')]"
    by code_simp
qed

theorem commission_formula_in_double_arithmetic_witness:
  "parseFloat (property (participant ''C'' (JStr ''abc'')) ''percentage'') = NaN
   \<and> agentPercentage (participant ''C'' (JStr ''abc'')) = js_0
   \<and> toFixed2 (js_div (js_mul (Fin 1125 5) (agentPercentage (participant ''C'' (JStr ''abc''))))
                  js_100) = ''0.00''
   \<and> truthy (JNum (parseFloat (property agent_A ''percentage'')))
   \<and> agentPercentage agent_A = Fin 15 2
   \<and> js_mul (Fin 9375 7) (Fin 3 0) = Fin 28125 7
   \<and> js_div (Fin 28125 7) js_100 = Fin 1125 5
   \<and> js_mul (Fin 1125 5) (Fin 15 2) = Fin 16875 7
   \<and> js_div (Fin 16875 7) js_100 = Fin 675 5
   \<and> normal_number (Fin 28125 7) \<and> normal_number (Fin 1125 5)
   \<and> normal_number (Fin 16875 7) \<and> normal_number (Fin 675 5)
   \<and> \<bar>value_of (Fin 675 5) - value_of (Fin 9375 7) * value_of (Fin 3 0) / 100
          * value_of (Fin 15 2) / 100\<bar> \<le> \<bar>value_of (Fin 675 5)\<bar> * (5 * 2 powi (- 53))
   \<and> \<bar>675\<bar> * 2 ^ nat 5 < (10::int) ^ 21 * 2 ^ nat (- 5)
   \<and> toFixed2 (Fin 675 5) = ''21600.00''
   \<and> (\<exists>n\<ge>0. ''21600.00'' = show_int (n div 100) @ ''.''
              @ [''0123456789'' ! nat (n div 10 mod 10), ''0123456789'' ! nat (n mod 10)]
          \<and> \<bar>2 * (100 * 675 * 2 ^ 5) - 2 * n\<bar> \<le> 1)
   \<and> (10::int) ^ 21 * 2 ^ nat (- 22) \<le> \<bar>2384185791015625\<bar> * 2 ^ nat 22
   \<and> toFixed2 (Fin 2384185791015625 22) = number_to_string (Fin 2384185791015625 22)
   \<and> number_to_string (Fin 2384185791015625 22) = ''1e+22''"
proof -
  note t = commission_formula_in_double_arithmetic
             [where p = "''1,200,000''" and r = "''3''" and agents = "[agent_A, agent_B]"
                and a = "participant ''C'' (JStr ''abc'')" and z = 0 and k = 1125 and j = 5
                and b = agent_A
                and nett = "Fin 9375 7" and rate = "Fin 3 0" and share = "Fin 15 2"
                and m = 675 and e = 5 and m' = 2384185791015625 and e' = 22]
  have h1: "parseFloat (property (participant ''C'' (JStr ''abc'')) ''percentage'') = NaN"
    by code_simp
  have h2: "parseFloat (property agent_A ''percentage'') = Fin 15 2"
    by code_simp
  then have h2': "truthy (JNum (parseFloat (property agent_A ''percentage'')))"
    by simp
  have o1: "js_mul (Fin 9375 7) (Fin 3 0) = Fin 28125 7" by code_simp
  have o2: "js_div (Fin 28125 7) js_100 = Fin 1125 5" by code_simp
  have o3: "js_mul (Fin 1125 5) (Fin 15 2) = Fin 16875 7" by code_simp
  have o4: "js_div (Fin 16875 7) js_100 = Fin 675 5" by code_simp
  have n: "normal_number (Fin 28125 7)" "normal_number (Fin 1125 5)"
    "normal_number (Fin 16875 7)" "normal_number (Fin 675 5)"
    by simp_all
  have a: "\<bar>675\<bar> * 2 ^ nat 5 < (10::int) ^ 21 * 2 ^ nat (- 5)" by simp
  have c: "toFixed2 (Fin 675 5) = ''21600.00''" by code_simp
  have g: "(10::int) ^ 21 * 2 ^ nat (- 22) \<le> \<bar>2384185791015625\<bar> * 2 ^ nat 22" by simp
  have s: "number_to_string (Fin 2384185791015625 22) = ''1e+22''" by code_simp
  note share_nan = t [THEN conjunct2, THEN conjunct1, THEN mp, OF disjI1 [OF h1]]
  note share_num = t [THEN conjunct2, THEN conjunct2, THEN conjunct1, THEN mp, OF h2']
  note accuracy = t [THEN conjunct2, THEN conjunct2, THEN conjunct2, THEN conjunct1, THEN mp]
  note below = t [THEN conjunct2, THEN conjunct2, THEN conjunct2, THEN conjunct2,
                  THEN conjunct1, THEN mp, OF a]
  note above = t [THEN conjunct2, THEN conjunct2, THEN conjunct2, THEN conjunct2,
                  THEN conjunct2, THEN conjunct1, THEN mp, OF g]
  from share_nan have w1: "agentPercentage (participant ''C'' (JStr ''abc'')) = js_0"
    "toFixed2 (js_div (js_mul (Fin 1125 5) (agentPercentage (participant ''C'' (JStr ''abc''))))
                  js_100) = ''0.00''"
    by (rule conjunct1, rule conjunct2)
  from share_num have w2: "agentPercentage agent_A = Fin 15 2"
    by (simp only: h2)
  have "normal_number (js_mul (Fin 9375 7) (Fin 3 0))
        \<and> normal_number (js_div (js_mul (Fin 9375 7) (Fin 3 0)) js_100)
        \<and> normal_number (js_mul (js_div (js_mul (Fin 9375 7) (Fin 3 0)) js_100) (Fin 15 2))
        \<and> normal_number (js_div (js_mul (js_div (js_mul (Fin 9375 7) (Fin 3 0)) js_100)
                                      (Fin 15 2)) js_100)"
    unfolding o1 o2 o3 o4 using n by (intro conjI)
  from accuracy [OF this]
  have w3: "\<bar>value_of (Fin 675 5) - value_of (Fin 9375 7) * value_of (Fin 3 0) / 100
          * value_of (Fin 15 2) / 100\<bar> \<le> \<bar>value_of (Fin 675 5)\<bar> * (5 * 2 powi (- 53))"
    unfolding o1 o2 o3 o4 .
  from below have w4: "\<exists>n\<ge>0. ''21600.00'' = show_int (n div 100) @ ''.''
              @ [''0123456789'' ! nat (n div 10 mod 10), ''0123456789'' ! nat (n mod 10)]
          \<and> \<bar>2 * (100 * 675 * 2 ^ 5) - 2 * n\<bar> \<le> 1"
    unfolding c by simp
  note w5 = above
  show ?thesis
    using h1 w1 h2' w2 o1 o2 o3 o4 n w3 a c w4 g w5 s by (intro conjI)
qed

text \<open>The claim as the specification words it fails for a payout of \<open>10 ^ 22\<close>:
  \<^verbatim>\<open>toFixed\<close> gives up the fixed-point layout at \<open>10 ^ 21\<close> and the commission is
  \<^verbatim>\<open>1e+22\<close>. The second line shows the binary64 arithmetic at an everyday size: the
  exact payout of the price 201 at the rate 1 and the share 50 is 1.005, the binary64
  payout lies below it, and the commission is \<^verbatim>\<open>1.00\<close>.\<close>

theorem large_payout_not_fixed_point:
  "map (\<lambda>a. a ''commission'')
     (calculateCommissions (JStr ''1e24'') (JStr ''1'') [participant ''A'' (JNum js_100)]) =
     [Some (JStr ''1e+22'')]
   \<and> ''1e+22'' \<noteq> ''10000000000000000000000.00''
   \<and> map (\<lambda>a. a ''commission'')
       (calculateCommissions (JStr ''201'') (JStr ''1'') [participant ''A'' (JNum js_50)]) =
       [Some (JStr ''1.00'')]"
  by code_simp

text \<open>
  \<^bold>\<open>C7\<close>, as the code has it. The commas of the price are removed before it is
  parsed: the result for a price is the result for the price without its commas, and the
  price enters the commissions as \<^verbatim>\<open>parseFloat\<close> of the text without commas only. A
  price that \<^verbatim>\<open>parseFloat\<close> does not read as a number once the commas are gone gives
  \<open>NaN\<close>, and then the commission of every participant is the string \<^verbatim>\<open>NaN\<close>.
\<close>

theorem non_numeric_price_gives_NaN:
  "calculateCommissions (JStr p) r agents =
     calculateCommissions (JStr (filter (\<lambda>c. c \<noteq> CHR '','') p)) r agents
   \<and> (parseFloat_string (filter (\<lambda>c. c \<noteq> CHR '','') p) = NaN
      \<longrightarrow> (\<forall>a \<in> set (calculateCommissions (JStr p) r agents).
             a ''commission'' = Some (JStr ''NaN'')))
   \<and> map (\<lambda>a. a ''commission'') (calculateCommissions (JStr p) r agents) =
       map (\<lambda>a. Some (JStr (toFixed2
              (js_div (js_mul (js_div (js_mul
                   (parseFloat_string (filter (\<lambda>c. c \<noteq> CHR '','') p))
                   (parseFloat r)) js_100)
                 (agentPercentage a)) js_100)))) agents"
  by (auto simp add: calculateCommissions_map)

theorem non_numeric_price_gives_NaN_witness:
  "parseFloat_string (filter (\<lambda>c. c \<noteq> CHR '','') ''n/a'') = NaN
   \<and> filter (\<lambda>c. c \<noteq> CHR '','') ''n,/,a'' = ''n/a''
   \<and> calculateCommissions (JStr ''n,/,a'') (JStr ''3'') [agent_A] =
       calculateCommissions (JStr ''n/a'') (JStr ''3'') [agent_A]
   \<and> map (\<lambda>a. a ''commission'') (calculateCommissions (JStr ''n/a'') (JStr ''3'') [agent_A]) =
       [Some (JStr ''NaN'')]"
proof -
  have n: "parseFloat_string (filter (\<lambda>c. c \<noteq> CHR '','') ''n/a'') = NaN" by code_simp
  have f: "filter (\<lambda>c. c \<noteq> CHR '','') ''n,/,a'' = ''n/a''" by simp
  note t = non_numeric_price_gives_NaN [of "''n/a''" "JStr ''3''" "[agent_A]"]
  note a = t [THEN conjunct2, THEN conjunct1, THEN mp, OF n]
  have l: "calculateCommissions (JStr ''n/a'') (JStr ''3'') [agent_A] = [hd (calculateCommissions (JStr ''n/a'') (JStr ''3'') [agent_A])]"
    by (simp add: calculateCommissions_map)
  have m: "map (\<lambda>a. a ''commission'') (calculateCommissions (JStr ''n/a'') (JStr ''3'') [agent_A]) = [Some (JStr ''NaN'')]"
    using a by (subst l) (subst (asm) l, simp)
  from non_numeric_price_gives_NaN [of "''n,/,a''" "JStr ''3''" "[agent_A]", THEN conjunct1]
  have c: "calculateCommissions (JStr ''n,/,a'') (JStr ''3'') [agent_A] =
       calculateCommissions (JStr ''n/a'') (JStr ''3'') [agent_A]"
    by (simp only: f)
  show ?thesis using n f c m by (intro conjI)
qed

text \<open>The claim as the specification words it fails for the price \<^verbatim>\<open>n/a\<close>: were it
  treated as 0, the commissions would be those of the price \<^verbatim>\<open>0\<close>, that is
  \<^verbatim>\<open>0.00\<close>; they are \<^verbatim>\<open>NaN\<close>.\<close>

theorem non_numeric_price_not_zero:
  "map (\<lambda>a. a ''commission'')
     (calculateCommissions (JStr ''n/a'') (JStr ''3'') [agent_A, agent_B])
     = [Some (JStr ''NaN''), Some (JStr ''NaN'')]
   \<and> map (\<lambda>a. a ''commission'')
       (calculateCommissions (JStr ''0'') (JStr ''3'') [agent_A, agent_B])
     = [Some (JStr ''0.00''), Some (JStr ''0.00'')]"
  by code_simp

text \<open>
  \<^bold>\<open>C10\<close>. The result has the length of the input, and its element at each
  position is the input element at that position with \<^verbatim>\<open>commission\<close> set to a string:
  every other property, present or absent, is as in the input.
\<close>

theorem calculateCommissions_frame:
  "length (calculateCommissions p r agents) = length agents
   \<and> (\<forall>i < length agents.
        (\<exists>c. calculateCommissions p r agents ! i = (agents ! i)(''commission'' \<mapsto> JStr c))
        \<and> (\<forall>k. k \<noteq> ''commission''
               \<longrightarrow> (calculateCommissions p r agents ! i) k = (agents ! i) k))"
  by (auto simp add: calculateCommissions_map)

theorem calculateCommissions_frame_witness:
  "(1::nat) < length [agent_A, agent_B] \<and> ''name'' \<noteq> ''commission''
   \<and> length (calculateCommissions (JStr ''1,200,000'') (JStr ''3'') [agent_A, agent_B]) = 2
   \<and> (calculateCommissions (JStr ''1,200,000'') (JStr ''3'') [agent_A, agent_B] ! 1) ''name''
       = Some (JStr ''B'')
   \<and> (calculateCommissions (JStr ''1,200,000'') (JStr ''3'') [agent_A, agent_B] ! 1) ''code''
       = Some (JStr ''C02'')
   \<and> (calculateCommissions (JStr ''1,200,000'') (JStr ''3'') [agent_A, agent_B] ! 1)
         ''percentage'' = Some (JNum (Fin 5 3))"
  using calculateCommissions_frame [of "JStr ''1,200,000''" "JStr ''3''" "[agent_A, agent_B]"]
  by (simp add: agent_A_def agent_B_def)

section \<open>Properties of the percentage validator\<close>

lemma validate_as_fold:
  "validateAgentPercentages agents =
     js_lt (js_abs (js_sub
       (foldl (\<lambda>sum v. js_add sum (parseFloat (js_or v (JNum js_0)))) js_0
          (map (\<lambda>a. property a ''percentage'') agents)) js_100)) js_0_01"
  by (simp add: validateAgentPercentages_def Let_def foldl_map)

lemma validate_reads_percentage_only:
  assumes "map (\<lambda>a. property a ''percentage'') as = map (\<lambda>a. property a ''percentage'') bs"
  shows "validateAgentPercentages as = validateAgentPercentages bs"
  using assms by (simp add: validate_as_fold)

lemma foldl_add_shares:
  "foldl (\<lambda>sum agent. js_add sum (parseFloat (js_or (property agent ''percentage'') (JNum js_0))))
     acc agents = add_shares acc agents"
  by (induction agents arbitrary: acc) (simp_all add: share_of_def)

lemma add_shares_append:
  "add_shares acc (as @ bs) = add_shares (add_shares acc as) bs"
  by (induction as arbitrary: acc) simp_all

lemma validate_sum_of_shares:
  "validateAgentPercentages agents =
     js_lt (js_abs (js_sub (sum_of_shares agents) js_100)) js_0_01"
  by (simp add: validateAgentPercentages_def Let_def foldl_add_shares sum_of_shares_def)

lemma sum_of_shares_snoc:
  "sum_of_shares (agents @ [a]) =
     js_add (sum_of_shares agents) (parseFloat (js_or (property a ''percentage'') (JNum js_0)))"
  by (simp add: sum_of_shares_def add_shares_append share_of_def)

lemma value_of_shift:
  assumes "k \<le> e"
  shows "value_of (Fin m e) = real_of_int (m * 2 ^ nat (e - k)) * 2 powi k"
proof -
  have "(2::real) powi e = 2 powi ((e - k) + k)" by simp
  also have "\<dots> = 2 powi (e - k) * 2 powi k"
    by (rule power_int_add) simp
  also have "(2::real) powi (e - k) = 2 ^ nat (e - k)"
    using assms by (simp add: power_int_def)
  finally show ?thesis by simp
qed

lemma js_lt_value:
  "js_lt (Fin m1 e1) (Fin m2 e2) = (value_of (Fin m1 e1) < value_of (Fin m2 e2))"
proof -
  let ?k = "min e1 e2"
  have "value_of (Fin m1 e1) = real_of_int (m1 * 2 ^ nat (e1 - ?k)) * 2 powi ?k"
    by (rule value_of_shift) simp
  moreover have "value_of (Fin m2 e2) = real_of_int (m2 * 2 ^ nat (e2 - ?k)) * 2 powi ?k"
    by (rule value_of_shift) simp
  moreover have "(real_of_int (m1 * 2 ^ nat (e1 - ?k)) * 2 powi ?k
                   < real_of_int (m2 * 2 ^ nat (e2 - ?k)) * 2 powi ?k)
                 = (m1 * 2 ^ nat (e1 - ?k) < m2 * 2 ^ nat (e2 - ?k))"
    by (simp only: mult_less_cancel_right_pos zero_less_power_int zero_less_numeral of_int_less_iff)
  ultimately show ?thesis by (simp only: js_lt.simps)
qed

lemma within_tolerance:
  "js_lt (js_abs d) js_0_01 =
     (\<exists>m e. d = Fin m e \<and> \<bar>value_of (Fin m e)\<bar> < value_of js_0_01)"
proof (cases d)
  case (Fin m e)
  have "js_lt (js_abs (Fin m e)) js_0_01 = (value_of (Fin \<bar>m\<bar> e) < value_of js_0_01)"
    unfolding js_0_01_def js_abs.simps by (rule js_lt_value)
  also have "value_of (Fin \<bar>m\<bar> e) = \<bar>value_of (Fin m e)\<bar>"
    by (simp add: abs_mult)
  finally show ?thesis using Fin by simp
qed (simp_all add: js_0_01_def)

lemma tolerance_value: "value_of js_0_01 = 5764607523034235 / 2 ^ 59"
  by (simp add: js_0_01_def power_int_minus field_simps)

text \<open>
  \<^bold>\<open>C8\<close>, as the code has it. For every list, the verdict of the validator is
  whether the sum of the shares of all its elements differs from 100 by less than 0.01,
  the sum, the difference and the comparison being those of binary64: the sum of the
  empty list is 0, and each further slot adds \<^verbatim>\<open>parseFloat(percentage || 0)\<close> on the
  right; the verdict is true exactly when the binary64 difference of the sum and 100 is
  finite and of magnitude below the binary64 value of 0.01, which is
  \<open>5764607523034235 / 2 ^ 59\<close>. The validator looks at the \<^verbatim>\<open>percentage\<close> of every element and at nothing
  else: two lists with the same shares in the same order get the same verdict, whatever
  the names. Its callers drop the slots without a name first, so the verdict of the
  validation step is that of the sum over the named participants. A total of 100 passes,
  in one, two or three slots. A single share of 99.99 or 100.01 fails, since its distance
  from 100 is 0.010000000000005 in binary64; so does three times 33.33, which is 99.99.
  60 + 39.99 and 60 + 40.01 pass, since the sums are 99.99000000000001 and
  100.00999999999999. Totals of 99.98, 100.02 and 150 fail.
\<close>

theorem validator_sums_every_slot:
  "validateAgentPercentages agents =
     js_lt (js_abs (js_sub (sum_of_shares agents) js_100)) js_0_01
   \<and> sum_of_shares [] = js_0
   \<and> sum_of_shares (agents @ [a]) =
       js_add (sum_of_shares agents) (parseFloat (js_or (property a ''percentage'') (JNum js_0)))
   \<and> (map (\<lambda>a. property a ''percentage'') as = map (\<lambda>a. property a ''percentage'') bs
      \<longrightarrow> validateAgentPercentages as = validateAgentPercentages bs)
   \<and> validateAgentPercentages (named_agents agents) =
       js_lt (js_abs (js_sub
         (sum_of_shares (filter (\<lambda>agent. truthy (property agent ''name'')) agents)) js_100))
         js_0_01
   \<and> spec_isValid agents = validateAgentPercentages (named_agents agents)
   \<and> validateAgentPercentages [participant ''A'' (JNum js_100)]
   \<and> validateAgentPercentages [participant ''A'' (JNum (parseFloat_string ''60'')),
                                participant ''B'' (JNum (parseFloat_string ''40''))]
   \<and> validateAgentPercentages [participant ''A'' (JNum (parseFloat_string ''30'')),
                                participant ''B'' (JNum (parseFloat_string ''30'')),
                                participant ''C'' (JNum (parseFloat_string ''40''))]
   \<and> validateAgentPercentages [participant ''A'' (JNum (parseFloat_string ''33.33'')),
                                participant ''B'' (JNum (parseFloat_string ''33.33'')),
                                participant ''C'' (JNum (parseFloat_string ''33.34''))]
   \<and> validateAgentPercentages [participant ''A'' (JNum (parseFloat_string ''60'')),
                                participant ''B'' (JNum (parseFloat_string ''39.99''))]
   \<and> validateAgentPercentages [participant ''A'' (JNum (parseFloat_string ''60'')),
                                participant ''B'' (JNum (parseFloat_string ''40.01''))]
   \<and> \<not> validateAgentPercentages [participant ''A'' (JNum (parseFloat_string ''99.99''))]
   \<and> \<not> validateAgentPercentages [participant ''A'' (JNum (parseFloat_string ''100.01''))]
   \<and> \<not> validateAgentPercentages [participant ''A'' (JNum (parseFloat_string ''33.33'')),
                                  participant ''B'' (JNum (parseFloat_string ''33.33'')),
                                  participant ''C'' (JNum (parseFloat_string ''33.33''))]
   \<and> \<not> validateAgentPercentages [participant ''A'' (JNum (parseFloat_string ''99.98''))]
   \<and> \<not> validateAgentPercentages [participant ''A'' (JNum (parseFloat_string ''100.02''))]
   \<and> \<not> validateAgentPercentages [participant ''A'' (JNum (parseFloat_string ''60'')),
                                  participant ''B'' (JNum (parseFloat_string ''39.98''))]
   \<and> \<not> validateAgentPercentages [participant ''A'' (JNum (parseFloat_string ''60'')),
                                  participant ''B'' (JNum (parseFloat_string ''40.02''))]
   \<and> \<not> validateAgentPercentages [participant ''A'' (JNum (parseFloat_string ''50'')),
                                  participant ''B'' (JNum (parseFloat_string ''50'')),
                                  participant ''C'' (JNum (parseFloat_string ''50''))]
   \<and> validateAgentPercentages agents =
       (\<exists>m e. js_sub (sum_of_shares agents) js_100 = Fin m e
              \<and> \<bar>value_of (Fin m e)\<bar> < value_of js_0_01)
   \<and> value_of js_0_01 = 5764607523034235 / 2 ^ 59"
proof -
  have ev: "validateAgentPercentages [participant ''A'' (JNum js_100)]
   \<and> validateAgentPercentages [participant ''A'' (JNum (parseFloat_string ''60'')),
                                participant ''B'' (JNum (parseFloat_string ''40''))]
   \<and> validateAgentPercentages [participant ''A'' (JNum (parseFloat_string ''30'')),
                                participant ''B'' (JNum (parseFloat_string ''30'')),
                                participant ''C'' (JNum (parseFloat_string ''40''))]
   \<and> validateAgentPercentages [participant ''A'' (JNum (parseFloat_string ''33.33'')),
                                participant ''B'' (JNum (parseFloat_string ''33.33'')),
                                participant ''C'' (JNum (parseFloat_string ''33.34''))]
   \<and> validateAgentPercentages [participant ''A'' (JNum (parseFloat_string ''60'')),
                                participant ''B'' (JNum (parseFloat_string ''39.99''))]
   \<and> validateAgentPercentages [participant ''A'' (JNum (parseFloat_string ''60'')),
                                participant ''B'' (JNum (parseFloat_string ''40.01''))]
   \<and> \<not> validateAgentPercentages [participant ''A'' (JNum (parseFloat_string ''99.99''))]
   \<and> \<not> validateAgentPercentages [participant ''A'' (JNum (parseFloat_string ''100.01''))]
   \<and> \<not> validateAgentPercentages [participant ''A'' (JNum (parseFloat_string ''33.33'')),
                                  participant ''B'' (JNum (parseFloat_string ''33.33'')),
                                  participant ''C'' (JNum (parseFloat_string ''33.33''))]
   \<and> \<not> validateAgentPercentages [participant ''A'' (JNum (parseFloat_string ''99.98''))]
   \<and> \<not> validateAgentPercentages [participant ''A'' (JNum (parseFloat_string ''100.02''))]
   \<and> \<not> validateAgentPercentages [participant ''A'' (JNum (parseFloat_string ''60'')),
                                  participant ''B'' (JNum (parseFloat_string ''39.98''))]
   \<and> \<not> validateAgentPercentages [participant ''A'' (JNum (parseFloat_string ''60'')),
                                  participant ''B'' (JNum (parseFloat_string ''40.02''))]
   \<and> \<not> validateAgentPercentages [participant ''A'' (JNum (parseFloat_string ''50'')),
                                  participant ''B'' (JNum (parseFloat_string ''50'')),
                                  participant ''C'' (JNum (parseFloat_string ''50''))]"
    by code_simp
  have g1: "validateAgentPercentages agents =
     js_lt (js_abs (js_sub (sum_of_shares agents) js_100)) js_0_01"
    by (rule validate_sum_of_shares)
  have g2: "sum_of_shares [] = js_0"
    by (simp add: sum_of_shares_def)
  have g3: "sum_of_shares (agents @ [a]) =
       js_add (sum_of_shares agents) (parseFloat (js_or (property a ''percentage'') (JNum js_0)))"
    by (rule sum_of_shares_snoc)
  have g4: "map (\<lambda>a. property a ''percentage'') as = map (\<lambda>a. property a ''percentage'') bs
      \<longrightarrow> validateAgentPercentages as = validateAgentPercentages bs"
    using validate_reads_percentage_only [of as bs] by blast
  have g5: "validateAgentPercentages (named_agents agents) =
       js_lt (js_abs (js_sub
         (sum_of_shares (filter (\<lambda>agent. truthy (property agent ''name'')) agents)) js_100))
         js_0_01"
    unfolding named_agents_def by (rule validate_sum_of_shares)
  have g6: "spec_isValid agents = validateAgentPercentages (named_agents agents)"
    by (simp only: spec_isValid_def named_agents_def)
  have g7: "validateAgentPercentages agents =
       (\<exists>m e. js_sub (sum_of_shares agents) js_100 = Fin m e
              \<and> \<bar>value_of (Fin m e)\<bar> < value_of js_0_01)"
    unfolding validate_sum_of_shares by (rule within_tolerance)
  have g8: "value_of js_0_01 = 5764607523034235 / 2 ^ 59"
    by (rule tolerance_value)
  show ?thesis
    using g1 g2 g3 g4 g5 g6 ev g7 g8 by (intro conjI) (elim conjE, assumption)+
qed

theorem validator_sums_every_slot_witness:
  "map (\<lambda>a. property a ''percentage'') [participant [] (JNum js_100)] =
     map (\<lambda>a. property a ''percentage'') [participant ''A'' (JNum js_100)]
   \<and> validateAgentPercentages [participant [] (JNum js_100)]
   \<and> validateAgentPercentages [participant ''A'' (JNum js_100)]
   \<and> named_agents [participant [] (JNum js_100), participant ''A'' (JNum js_100)] =
       [participant ''A'' (JNum js_100)]"
proof -
  have h: "map (\<lambda>a. property a ''percentage'') [participant [] (JNum js_100)] =
     map (\<lambda>a. property a ''percentage'') [participant ''A'' (JNum js_100)]"
    by (simp add: participant_def property_def)
  note t = validator_sums_every_slot
      [where as = "[participant [] (JNum js_100)]" and bs = "[participant ''A'' (JNum js_100)]"]
  note same = t [THEN conjunct2, THEN conjunct2, THEN conjunct2, THEN conjunct1, THEN mp, OF h]
  note one = t [THEN conjunct2, THEN conjunct2, THEN conjunct2, THEN conjunct2,
                THEN conjunct2, THEN conjunct2, THEN conjunct1]
  have f: "named_agents [participant [] (JNum js_100), participant ''A'' (JNum js_100)] =
       [participant ''A'' (JNum js_100)]"
    by (simp add: named_agents_def participant_def property_def)
  from one same have "validateAgentPercentages [participant [] (JNum js_100)]"
    by (simp only:)
  with h one f show ?thesis by (intro conjI)
qed

text \<open>The claim as the specification words it fails for named participants whose
  shares sum to 99.99 or to 100.01: a single participant with the share 99.99, one with
  the share 100.01, and three participants with the share 33.33 each are rejected, by
  the validator and by the validation step with its filter.\<close>

theorem boundary_totals_rejected:
  "\<not> validateAgentPercentages [participant ''A'' (JNum (parseFloat_string ''99.99''))]
   \<and> \<not> validateAgentPercentages [participant ''A'' (JNum (parseFloat_string ''100.01''))]
   \<and> \<not> validateAgentPercentages [participant ''A'' (JNum (parseFloat_string ''33.33'')),
                                  participant ''B'' (JNum (parseFloat_string ''33.33'')),
                                  participant ''C'' (JNum (parseFloat_string ''33.33''))]
   \<and> \<not> spec_isValid [participant ''A'' (JNum (parseFloat_string ''99.99''))]
   \<and> \<not> spec_isValid [participant ''A'' (JNum (parseFloat_string ''100.01''))]
   \<and> number_to_string (sum_of_shares [participant ''A'' (JNum (parseFloat_string ''99.99''))])
       = ''99.99''
   \<and> number_to_string (sum_of_shares [participant ''A'' (JNum (parseFloat_string ''100.01''))])
       = ''100.01''
   \<and> number_to_string (sum_of_shares [participant ''A'' (JNum (parseFloat_string ''33.33'')),
                                       participant ''B'' (JNum (parseFloat_string ''33.33'')),
                                       participant ''C'' (JNum (parseFloat_string ''33.33''))])
       = ''99.99''"
  by code_simp

section \<open>Properties of the fast-commission lookup\<close>

text \<open>
  \<^bold>\<open>C9\<close>. The administrator sets the fast commission of the project \<^verbatim>\<open>Alpha\<close> to 0,
  a value the command accepts (its option is declared with the range 0 to 100). The
  claim asks for the stored percentage. The lookup returns 50: \<^verbatim>\<open>||\<close> takes the stored
  0 for a missing entry. A stored 30 is found under any spelling of the name, and a
  project without an entry gets 50.
\<close>

theorem zero_fast_commission_reads_as_default:
  "getFastCommissionPercentage
     (setFastCommissionPercentage Map.empty ''Alpha'' (JNum js_0)) ''Alpha'' = JNum js_50
   \<and> getFastCommissionPercentage
       (setFastCommissionPercentage Map.empty ''Alpha'' (JNum (Fin 15 1))) ''ALPHA''
       = JNum (Fin 15 1)
   \<and> getFastCommissionPercentage Map.empty ''Alpha'' = JNum js_50"
  by code_simp

end
